theory Spec2Isabelle
  imports Main
begin

section \<open>JavaScript values and the object heap\<close>

text \<open>
  Arrays and objects are references in JavaScript: two parsed objects with the same
  contents are different values, an array can be copied (\<^verbatim>\<open>[...xs]\<close>) and the copy sorted in
  place. The model therefore keeps both in a heap of cells and a value is either a
  primitive or a reference. Numbers are the integers (record counts, HTTP status codes and
  business counts are integers; \<^verbatim>\<open>NaN\<close>, fractions and \<^verbatim>\<open>-0\<close> are outside the model).
  Equality of \<open>jsval\<close> is then the equality a \<^verbatim>\<open>Set\<close> uses: by value on primitives, by
  identity on objects and arrays.
\<close>

type_synonym addr = nat

datatype jsval =
    JUndefined
  | JNull
  | JBool bool
  | JNum int
  | JStr string
  | JRef addr

datatype cell =
    ArrCell "jsval list"
  | ObjCell "(string \<times> jsval) list"

type_synonym heap = "cell list"

definition cell_at :: "heap \<Rightarrow> addr \<Rightarrow> cell option" where
  "cell_at h a = (if a < length h then Some (h ! a) else None)"

text \<open>A new object or array takes the next free address.\<close>

definition alloc :: "heap \<Rightarrow> cell \<Rightarrow> addr \<times> heap" where
  "alloc h c = (length h, h @ [c])"

text \<open>Values that can be thrown and caught: \<^verbatim>\<open>new Error(msg)\<close> and the built-in errors.\<close>

datatype exn =
    Error string
  | TypeError string
  | SyntaxError string

text \<open>The test of \<^verbatim>\<open>if (v)\<close> and of \<^verbatim>\<open>v || d\<close>.\<close>

fun truthy :: "jsval \<Rightarrow> bool" where
  "truthy JUndefined = False"
| "truthy JNull = False"
| "truthy (JBool b) = b"
| "truthy (JNum n) = (n \<noteq> 0)"
| "truthy (JStr s) = (s \<noteq> [])"
| "truthy (JRef a) = True"

definition js_or :: "jsval \<Rightarrow> jsval \<Rightarrow> jsval" where
  "js_or v d = (if truthy v then v else d)"

text \<open>
  \<^verbatim>\<open>v.k\<close> for the property names the services read (\<^verbatim>\<open>territories\<close>, \<^verbatim>\<open>group_by\<close>,
  \<^verbatim>\<open>summary\<close>, \<^verbatim>\<open>business_count\<close>, \<^verbatim>\<open>zip_code\<close>, \<^verbatim>\<open>blockgroup\<close>, \<^verbatim>\<open>city\<close>): none of them is
  inherited from a prototype, so a primitive or an array has none of them, and reading a
  property of \<^verbatim>\<open>null\<close> or \<^verbatim>\<open>undefined\<close> throws.
\<close>

definition get_prop :: "heap \<Rightarrow> jsval \<Rightarrow> string \<Rightarrow> exn + jsval" where
  "get_prop h v k =
     (case v of
        JUndefined \<Rightarrow> Inl (TypeError (''Cannot read properties of undefined (reading '' @ k @ '')''))
      | JNull \<Rightarrow> Inl (TypeError (''Cannot read properties of null (reading '' @ k @ '')''))
      | JRef a \<Rightarrow>
          (case cell_at h a of
             Some (ObjCell ps) \<Rightarrow> Inr (case map_of ps k of Some x \<Rightarrow> x | None \<Rightarrow> JUndefined)
           | _ \<Rightarrow> Inr JUndefined)
      | _ \<Rightarrow> Inr JUndefined)"

definition isArray :: "heap \<Rightarrow> jsval \<Rightarrow> bool" where
  "isArray h v =
     (case v of
        JRef a \<Rightarrow> (case cell_at h a of Some (ArrCell xs) \<Rightarrow> True | _ \<Rightarrow> False)
      | _ \<Rightarrow> False)"

text \<open>The elements of an array (of anything else: none).\<close>

definition elems :: "heap \<Rightarrow> jsval \<Rightarrow> jsval list" where
  "elems h v =
     (case v of
        JRef a \<Rightarrow> (case cell_at h a of Some (ArrCell xs) \<Rightarrow> xs | _ \<Rightarrow> [])
      | _ \<Rightarrow> [])"

text \<open>
  What \<^verbatim>\<open>for (const x of v)\<close> visits: the elements of an array, the characters of a
  string; anything else in this model is not iterable.
\<close>

definition iterate :: "heap \<Rightarrow> jsval \<Rightarrow> exn + jsval list" where
  "iterate h v =
     (case v of
        JRef a \<Rightarrow>
          (case cell_at h a of
             Some (ArrCell xs) \<Rightarrow> Inr xs
           | _ \<Rightarrow> Inl (TypeError ''records is not iterable''))
      | JStr s \<Rightarrow> Inr (map (\<lambda>c. JStr [c]) s)
      | _ \<Rightarrow> Inl (TypeError ''records is not iterable''))"

section \<open>The world: heap and network log\<close>

datatype http_method = GET | POST | PUT | PATCH | DELETE

text \<open>
  The request configuration \<^verbatim>\<open>{ method, url, data, ...options }\<close> handed to the axios
  instance; the options are kept as given (axios merges them).
\<close>

record request =
  req_method :: http_method
  req_url :: string
  req_data :: jsval
  req_options :: "(string \<times> jsval) list"

datatype net_call = Axios request | Fetch string

text \<open>
  What a call can change: the heap, and the list of network calls issued so far.
  Console output is not part of the model.
\<close>

record world =
  heap :: heap
  net_log :: "net_call list"

section \<open>HTTP transport (services/api.js)\<close>

record axios_response =
  resp_status :: nat
  resp_statusText :: string
  resp_data :: jsval
  resp_url :: "string option"

text \<open>
  The error axios rejects with: \<^verbatim>\<open>error.message\<close>, \<^verbatim>\<open>error.code\<close>, \<^verbatim>\<open>error.response\<close>
  (absent when no response arrived) and \<^verbatim>\<open>error.config?.url\<close>.
\<close>

record axios_error =
  ax_message :: string
  ax_code :: "string option"
  ax_response :: "axios_response option"
  ax_url :: "string option"

datatype axios_outcome = Fulfilled axios_response | Rejected axios_error

text \<open>
  The object built by the response interceptor's error handler. \<open>None\<close> is \<^verbatim>\<open>undefined\<close>;
  \<open>err_data\<close> is the field \<^verbatim>\<open>data\<close>, \<open>err_url\<close> the field \<^verbatim>\<open>url\<close>.
\<close>

record enhanced_error =
  message :: string
  status :: "nat option"
  statusText :: "string option"
  err_data :: jsval
  isNetworkError :: bool
  isTimeout :: bool
  err_url :: "string option"

definition enhancedError :: "axios_error \<Rightarrow> enhanced_error" where
  "enhancedError e =
     \<lparr> message = ax_message e,
       status = map_option resp_status (ax_response e),
       statusText = map_option resp_statusText (ax_response e),
       err_data = (case ax_response e of None \<Rightarrow> JUndefined | Some r \<Rightarrow> resp_data r),
       isNetworkError = (ax_response e = None),
       isTimeout = (ax_code e = Some ''ECONNABORTED''),
       err_url = ax_url e \<rparr>"

text \<open>
  The axios instance with its interceptors. The adapter is the outcome of axios itself
  (network, server, timeout, status validation); the request interceptor returns the
  configuration unchanged, the response interceptor returns a response unchanged and
  rejects with the enhanced error.
\<close>

definition apiClient :: "(request \<Rightarrow> axios_outcome) \<Rightarrow> request \<Rightarrow> enhanced_error + axios_response" where
  "apiClient adapter rq =
     (case adapter rq of
        Fulfilled response \<Rightarrow> Inr response
      | Rejected e \<Rightarrow> Inl (enhancedError e))"

text \<open>The result envelope \<^verbatim>\<open>{ data, error }\<close>; \<open>None\<close> is \<^verbatim>\<open>error: null\<close>.\<close>

record 'e envelope =
  data :: jsval
  error :: "'e option"

text \<open>What lies outside a service call: the network, the static files, the clock.\<close>

record fetch_response =
  ok :: bool
  fetch_status :: nat
  json :: "exn + jsval"

datatype fetch_outcome = FetchRejected exn | FetchResolved fetch_response

record env =
  adapter :: "request \<Rightarrow> axios_outcome"
  fetch :: "string \<Rightarrow> fetch_outcome"
  now :: string

definition apiRequest ::
  "env \<Rightarrow> http_method \<Rightarrow> string \<Rightarrow> jsval \<Rightarrow> (string \<times> jsval) list \<Rightarrow> world
     \<Rightarrow> enhanced_error envelope \<times> world" where
  "apiRequest ev m u d opts w =
     (let rq = \<lparr> req_method = m, req_url = u, req_data = d, req_options = opts \<rparr>;
          w' = w \<lparr> net_log := net_log w @ [Axios rq] \<rparr>
      in case apiClient (adapter ev) rq of
           Inr response \<Rightarrow> (\<lparr> data = resp_data response, error = None \<rparr>, w')
         | Inl e \<Rightarrow> (\<lparr> data = JNull, error = Some e \<rparr>, w'))"

definition api_get :: "env \<Rightarrow> string \<Rightarrow> (string \<times> jsval) list \<Rightarrow> world \<Rightarrow> enhanced_error envelope \<times> world" where
  "api_get ev u opts = apiRequest ev GET u JNull opts"

definition api_post :: "env \<Rightarrow> string \<Rightarrow> jsval \<Rightarrow> (string \<times> jsval) list \<Rightarrow> world \<Rightarrow> enhanced_error envelope \<times> world" where
  "api_post ev u d opts = apiRequest ev POST u d opts"

definition api_put :: "env \<Rightarrow> string \<Rightarrow> jsval \<Rightarrow> (string \<times> jsval) list \<Rightarrow> world \<Rightarrow> enhanced_error envelope \<times> world" where
  "api_put ev u d opts = apiRequest ev PUT u d opts"

definition api_patch :: "env \<Rightarrow> string \<Rightarrow> jsval \<Rightarrow> (string \<times> jsval) list \<Rightarrow> world \<Rightarrow> enhanced_error envelope \<times> world" where
  "api_patch ev u d opts = apiRequest ev PATCH u d opts"

definition api_delete :: "env \<Rightarrow> string \<Rightarrow> (string \<times> jsval) list \<Rightarrow> world \<Rightarrow> enhanced_error envelope \<times> world" where
  "api_delete ev u opts = apiRequest ev DELETE u JNull opts"

text \<open>The message the error panel shows (components/ErrorMessage).\<close>

definition getErrorMessage :: "enhanced_error option \<Rightarrow> string" where
  "getErrorMessage err =
     (case err of
        None \<Rightarrow> ''An unknown error occurred''
      | Some e \<Rightarrow>
          if isNetworkError e then ''Unable to connect to the server. Please check your connection.''
          else if isTimeout e then ''Request timed out. The server took too long to respond.''
          else if status e = Some 404 then ''The requested resource was not found.''
          else if status e = Some 500 then ''Server error. Please try again later.''
          else if message e \<noteq> [] then message e
          else ''Something went wrong. Please try again.'')"

section \<open>Fixtures (mockData)\<close>

text \<open>
  The module's fixture object, laid out in the heap as it is when the module has been
  loaded: the records of each list first, then the list itself.
\<close>

definition mockData_heap :: heap where
  "mockData_heap =
   [ ObjCell [(''name'', JStr ''block_group''), (''source'', JStr ''data/block_group.json''),
              (''purpose'', JStr ''Census block group geometry and demographics''),
              (''recordCount'', JNum 1523), (''lastUpdated'', JStr ''2024-01-15'')],
     ObjCell [(''name'', JStr ''business_location''), (''source'', JStr ''data/business_location.json''),
              (''purpose'', JStr ''Geocoded business locations with attributes''),
              (''recordCount'', JNum 45289), (''lastUpdated'', JStr ''2024-01-14'')],
     ObjCell [(''name'', JStr ''city''), (''source'', JStr ''data/city.json''),
              (''purpose'', JStr ''City boundaries and metadata''),
              (''recordCount'', JNum 342), (''lastUpdated'', JStr ''2024-01-10'')],
     ObjCell [(''name'', JStr ''zipcode''), (''source'', JStr ''data/zipcode.json''),
              (''purpose'', JStr ''Zipcode polygons for aggregation and filtering''),
              (''recordCount'', JNum 1876), (''lastUpdated'', JStr ''2024-01-12'')],
     ObjCell [(''name'', JStr ''zone_location''), (''source'', JStr ''data/zone_location.json''),
              (''purpose'', JStr ''Zoning-based scoring locations and candidate sites''),
              (''recordCount'', JNum 8934), (''lastUpdated'', JStr ''2024-01-16'')],
     ArrCell [JRef 0, JRef 1, JRef 2, JRef 3, JRef 4],
     ObjCell [(''name'', JStr ''blockgroups.csv''), (''path'', JStr ''exports/blockgroups.csv''),
              (''description'', JStr ''Scored block groups for candidate regions''),
              (''size'', JStr ''2.3 MB''), (''rows'', JNum 15234),
              (''createdAt'', JStr ''2024-01-15T10:30:00Z'')],
     ObjCell [(''name'', JStr ''locations.csv''), (''path'', JStr ''exports/locations.csv''),
              (''description'', JStr ''Store and candidate locations with features''),
              (''size'', JStr ''8.7 MB''), (''rows'', JNum 45289),
              (''createdAt'', JStr ''2024-01-14T14:20:00Z'')],
     ObjCell [(''name'', JStr ''businesses.csv''), (''path'', JStr ''exports/businesses.csv''),
              (''description'', JStr ''Business-level attributes for graph ingestion''),
              (''size'', JStr ''12.1 MB''), (''rows'', JNum 67123),
              (''createdAt'', JStr ''2024-01-16T09:15:00Z'')],
     ArrCell [JRef 6, JRef 7, JRef 8],
     ObjCell [(''name'', JStr ''city_attributes.ipynb''), (''path'', JStr ''notebooks/city_attributes.ipynb''),
              (''description'', JStr ''City-level attributes and enrichment''),
              (''lastRun'', JStr ''2024-01-14T16:45:00Z''), (''status'', JStr ''success'')],
     ObjCell [(''name'', JStr ''neo4j_analytics.ipynb''), (''path'', JStr ''notebooks/neo4j_analytics.ipynb''),
              (''description'', JStr ''Graph analytics over the Neo4j model''),
              (''lastRun'', JStr ''2024-01-15T11:20:00Z''), (''status'', JStr ''success'')],
     ObjCell [(''name'', JStr ''neo4j_visualization.ipynb''), (''path'', JStr ''notebooks/neo4j_visualization.ipynb''),
              (''description'', JStr ''Visual exploration of the graph''),
              (''lastRun'', JStr ''2024-01-15T13:30:00Z''), (''status'', JStr ''success'')],
     ObjCell [(''name'', JStr ''neo4j_llm.ipynb''), (''path'', JStr ''notebooks/neo4j_llm.ipynb''),
              (''description'', JStr ''LLM-assisted categorization and enrichment''),
              (''lastRun'', JStr ''2024-01-16T10:00:00Z''), (''status'', JStr ''running'')],
     ArrCell [JRef 10, JRef 11, JRef 12, JRef 13],
     ObjCell [(''name'', JStr ''analysis_block_group_tables.sql''),
              (''path'', JStr ''scripts/analysis_block_group_tables.sql''),
              (''description'', JStr ''Analysis helpers over block group tables''), (''lines'', JNum 342)],
     ObjCell [(''name'', JStr ''analysis_esri_tables.sql''),
              (''path'', JStr ''scripts/analysis_esri_tables.sql''),
              (''description'', JStr ''ESRI enrichment and QA queries''), (''lines'', JNum 278)],
     ObjCell [(''name'', JStr ''create_postgres_tables.sql''),
              (''path'', JStr ''scripts/create_postgres_tables.sql''),
              (''description'', JStr ''Core relational schema for the pipeline''), (''lines'', JNum 456)],
     ObjCell [(''name'', JStr ''etl_entity_tables.sql''),
              (''path'', JStr ''scripts/etl_entity_tables.sql''),
              (''description'', JStr ''Entity ETL into the warehouse''), (''lines'', JNum 523)],
     ObjCell [(''name'', JStr ''etl_entity_relationships.sql''),
              (''path'', JStr ''scripts/etl_entity_relationships.sql''),
              (''description'', JStr ''Relationship ETL supporting the knowledge graph''), (''lines'', JNum 612)],
     ArrCell [JRef 15, JRef 16, JRef 17, JRef 18, JRef 19],
     ObjCell [(''totalBusinesses'', JNum 67123), (''totalBlockGroups'', JNum 1523),
              (''totalCities'', JNum 342), (''totalZipcodes'', JNum 1876),
              (''graphNodes'', JNum 125847), (''graphRelationships'', JNum 342156),
              (''lastUpdated'', JStr ''2024-01-16T12:00:00Z'')] ]"

definition mockData_tables :: jsval where
  "mockData_tables = JRef 5"

definition mockData_exports :: jsval where
  "mockData_exports = JRef 9"

definition mockData_notebooks :: jsval where
  "mockData_notebooks = JRef 14"

definition mockData_scripts :: jsval where
  "mockData_scripts = JRef 20"

definition mockData_stats :: jsval where
  "mockData_stats = JRef 21"

text \<open>
  The mock endpoints wait for a timer and return the fixture itself (the reference, not a
  copy). Time is not modelled, so each is the fixture.
\<close>

definition mockApi_getTables :: jsval where
  "mockApi_getTables = mockData_tables"

definition mockApi_getExports :: jsval where
  "mockApi_getExports = mockData_exports"

definition mockApi_getNotebooks :: jsval where
  "mockApi_getNotebooks = mockData_notebooks"

definition mockApi_getScripts :: jsval where
  "mockApi_getScripts = mockData_scripts"

definition mockApi_getStats :: jsval where
  "mockApi_getStats = mockData_stats"

section \<open>Data service: list resources\<close>

text \<open>
  Every method is a function of \<open>useMock\<close> (the module constant read from the
  configuration), of the environment and of the world. \<^verbatim>\<open>if (error)\<close> tests an object or
  \<^verbatim>\<open>null\<close>, so it is the test \<open>error r \<noteq> None\<close>.
\<close>

definition getTables :: "bool \<Rightarrow> env \<Rightarrow> world \<Rightarrow> enhanced_error envelope \<times> world" where
  "getTables useMock ev w =
     (if useMock then (\<lparr> data = mockApi_getTables, error = None \<rparr>, w)
      else
        let (r, w') = api_get ev ''/api/tables'' [] w
        in if error r \<noteq> None then (\<lparr> data = mockApi_getTables, error = None \<rparr>, w')
           else (\<lparr> data = data r, error = error r \<rparr>, w'))"

definition getExports :: "bool \<Rightarrow> env \<Rightarrow> world \<Rightarrow> enhanced_error envelope \<times> world" where
  "getExports useMock ev w =
     (if useMock then (\<lparr> data = mockApi_getExports, error = None \<rparr>, w)
      else
        let (r, w') = api_get ev ''/api/exports'' [] w
        in if error r \<noteq> None then (\<lparr> data = mockApi_getExports, error = None \<rparr>, w')
           else (\<lparr> data = data r, error = error r \<rparr>, w'))"

definition getNotebooks :: "bool \<Rightarrow> env \<Rightarrow> world \<Rightarrow> enhanced_error envelope \<times> world" where
  "getNotebooks useMock ev w =
     (if useMock then (\<lparr> data = mockApi_getNotebooks, error = None \<rparr>, w)
      else
        let (r, w') = api_get ev ''/api/notebooks'' [] w
        in if error r \<noteq> None then (\<lparr> data = mockApi_getNotebooks, error = None \<rparr>, w')
           else (\<lparr> data = data r, error = error r \<rparr>, w'))"

definition getScripts :: "bool \<Rightarrow> env \<Rightarrow> world \<Rightarrow> enhanced_error envelope \<times> world" where
  "getScripts useMock ev w =
     (if useMock then (\<lparr> data = mockApi_getScripts, error = None \<rparr>, w)
      else
        let (r, w') = api_get ev ''/api/scripts'' [] w
        in if error r \<noteq> None then (\<lparr> data = mockApi_getScripts, error = None \<rparr>, w')
           else (\<lparr> data = data r, error = error r \<rparr>, w'))"

text \<open>The statistics method of services/dataService.js (the direct strategy).\<close>

definition getStats_direct :: "bool \<Rightarrow> env \<Rightarrow> world \<Rightarrow> enhanced_error envelope \<times> world" where
  "getStats_direct useMock ev w =
     (if useMock then (\<lparr> data = mockApi_getStats, error = None \<rparr>, w)
      else
        let (r, w') = api_get ev ''/api/stats'' [] w
        in if error r \<noteq> None then (\<lparr> data = mockApi_getStats, error = None \<rparr>, w')
           else (\<lparr> data = data r, error = error r \<rparr>, w'))"

definition healthCheck :: "bool \<Rightarrow> env \<Rightarrow> world \<Rightarrow> enhanced_error envelope \<times> world" where
  "healthCheck useMock ev w =
     (let (r, w') = api_get ev ''/health'' [] w
      in (\<lparr> data = data r, error = error r \<rparr>, w'))"

section \<open>Data service: derived statistics\<close>

text \<open>The decimal text of a number, as a template string renders a status code.\<close>

definition digit_char :: "nat \<Rightarrow> char" where
  "digit_char d = ''0123456789'' ! d"

fun string_of_nat :: "nat \<Rightarrow> string" where
  "string_of_nat n =
     (if n < 10 then [digit_char n]
      else string_of_nat (n div 10) @ [digit_char (n mod 10)])"

declare string_of_nat.simps [simp del]

text \<open>
  A \<^verbatim>\<open>Set\<close> is the list of its members in insertion order; \<^verbatim>\<open>add\<close> leaves the set alone
  when the value is already a member, \<^verbatim>\<open>size\<close> is the length.
\<close>

definition set_add :: "jsval list \<Rightarrow> jsval \<Rightarrow> jsval list" where
  "set_add s v = (if v \<in> set s then s else s @ [v])"

text \<open>The loop's variables: the counter and the three sets.\<close>

record stats_acc =
  totalBusinesses :: nat
  zips :: "jsval list"
  blockgroups :: "jsval list"
  cities :: "jsval list"

fun stats_loop :: "heap \<Rightarrow> jsval list \<Rightarrow> stats_acc \<Rightarrow> exn + stats_acc" where
  "stats_loop h [] acc = Inr acc"
| "stats_loop h (r # rs) acc =
     (let acc1 = acc \<lparr> totalBusinesses := totalBusinesses acc + 1 \<rparr>
      in case get_prop h r ''zip_code'' of
           Inl e \<Rightarrow> Inl e
         | Inr z \<Rightarrow>
     (let acc2 = (if truthy z then acc1 \<lparr> zips := set_add (zips acc1) z \<rparr> else acc1)
      in case get_prop h r ''blockgroup'' of
           Inl e \<Rightarrow> Inl e
         | Inr b \<Rightarrow>
     (let acc3 = (if truthy b then acc2 \<lparr> blockgroups := set_add (blockgroups acc2) b \<rparr> else acc2)
      in case get_prop h r ''city'' of
           Inl e \<Rightarrow> Inl e
         | Inr c \<Rightarrow>
     (let acc4 = (if truthy c then acc3 \<lparr> cities := set_add (cities acc3) c \<rparr> else acc3)
      in stats_loop h rs acc4))))"

definition stats_url :: string where
  "stats_url = ''/data/ca_businesses_standardized.json''"

text \<open>
  The body of the \<^verbatim>\<open>try\<close> block: \<open>Inl\<close> is what it throws. The heap is the one in which
  \<^verbatim>\<open>response.json()\<close> has built the parsed body; the statistics object is allocated in it.
\<close>

definition getStats_try :: "env \<Rightarrow> heap \<Rightarrow> exn + (jsval \<times> heap)" where
  "getStats_try ev h =
     (case fetch ev stats_url of
        FetchRejected e \<Rightarrow> Inl e
      | FetchResolved response \<Rightarrow>
          if \<not> ok response
          then Inl (Error (''Failed to load standardized data: '' @ string_of_nat (fetch_status response)))
          else
            (case json response of
               Inl e \<Rightarrow> Inl e
             | Inr records \<Rightarrow>
            (case iterate h records of
               Inl e \<Rightarrow> Inl e
             | Inr rs \<Rightarrow>
            (case stats_loop h rs \<lparr> totalBusinesses = 0, zips = [], blockgroups = [], cities = [] \<rparr> of
               Inl e \<Rightarrow> Inl e
             | Inr acc \<Rightarrow>
                 (let (a, h') =
                        alloc h (ObjCell
                          [ (''totalBusinesses'', JNum (int (totalBusinesses acc))),
                            (''totalBlockGroups'', JNum (int (length (blockgroups acc)))),
                            (''totalCities'', JNum (int (length (cities acc)))),
                            (''totalZipcodes'', JNum (int (length (zips acc)))),
                            (''graphNodes'', JNull),
                            (''graphRelationships'', JNull),
                            (''lastUpdated'', JStr (now ev)) ])
                  in Inr (JRef a, h'))))))"

definition getStats :: "bool \<Rightarrow> env \<Rightarrow> world \<Rightarrow> exn envelope \<times> world" where
  "getStats useMock ev w =
     (let w1 = w \<lparr> net_log := net_log w @ [Fetch stats_url] \<rparr>
      in case getStats_try ev (heap w1) of
           Inr (stats, h') \<Rightarrow> (\<lparr> data = stats, error = None \<rparr>, w1 \<lparr> heap := h' \<rparr>)
         | Inl e \<Rightarrow> (\<lparr> data = mockApi_getStats, error = None \<rparr>, w1))"

section \<open>Data service: territory metrics\<close>

text \<open>
  How a step of the territory computation can end: with a value, with a thrown error, or
  on an input this model does not cover (the numeric value of a string or of an object).
\<close>

datatype 'a completion = Normal 'a | Throw exn | Unmodelled

text \<open>The number an operand of \<^verbatim>\<open>-\<close> stands for, where the model covers it.\<close>

fun to_number :: "jsval \<Rightarrow> int option" where
  "to_number (JNum n) = Some n"
| "to_number (JBool b) = Some (if b then 1 else 0)"
| "to_number JNull = Some 0"
| "to_number JUndefined = None"
| "to_number (JStr s) = None"
| "to_number (JRef a) = None"

text \<open>
  The comparator \<^verbatim>\<open>(a, b) => (b.business_count || 0) - (a.business_count || 0)\<close>: both
  operands are read (the left one first), then subtracted.
\<close>

definition compare_count :: "heap \<Rightarrow> jsval \<Rightarrow> jsval \<Rightarrow> int completion" where
  "compare_count h a b =
     (case get_prop h b ''business_count'' of
        Inl e \<Rightarrow> Throw e
      | Inr vb \<Rightarrow>
     (case get_prop h a ''business_count'' of
        Inl e \<Rightarrow> Throw e
      | Inr va \<Rightarrow>
     (case to_number (js_or vb (JNum 0)) of
        None \<Rightarrow> Unmodelled
      | Some nb \<Rightarrow>
     (case to_number (js_or va (JNum 0)) of
        None \<Rightarrow> Unmodelled
      | Some na \<Rightarrow> Normal (nb - na)))))"

text \<open>
  \<^verbatim>\<open>Array.prototype.sort\<close> with a comparator, as the language defines it since ECMAScript
  2019: a stable sort, \<^verbatim>\<open>undefined\<close> elements last and never compared. The order of the
  comparisons is the engine's own; the model inserts from the right, which compares every
  element of an array of two or more and gives the one result a stable sort can give when
  the comparator is a consistent order.
\<close>

fun insert_by :: "('a \<Rightarrow> 'a \<Rightarrow> int completion) \<Rightarrow> 'a \<Rightarrow> 'a list \<Rightarrow> 'a list completion" where
  "insert_by cmp x [] = Normal [x]"
| "insert_by cmp x (y # ys) =
     (case cmp x y of
        Throw e \<Rightarrow> Throw e
      | Unmodelled \<Rightarrow> Unmodelled
      | Normal c \<Rightarrow>
          if c \<le> 0 then Normal (x # y # ys)
          else (case insert_by cmp x ys of
                  Normal zs \<Rightarrow> Normal (y # zs)
                | Throw e \<Rightarrow> Throw e
                | Unmodelled \<Rightarrow> Unmodelled))"

fun sort_by :: "('a \<Rightarrow> 'a \<Rightarrow> int completion) \<Rightarrow> 'a list \<Rightarrow> 'a list completion" where
  "sort_by cmp [] = Normal []"
| "sort_by cmp (x # xs) =
     (case sort_by cmp xs of
        Normal zs \<Rightarrow> insert_by cmp x zs
      | Throw e \<Rightarrow> Throw e
      | Unmodelled \<Rightarrow> Unmodelled)"

definition array_sort :: "(jsval \<Rightarrow> jsval \<Rightarrow> int completion) \<Rightarrow> jsval list \<Rightarrow> jsval list completion" where
  "array_sort cmp xs =
     (case sort_by cmp (filter (\<lambda>x. x \<noteq> JUndefined) xs) of
        Normal zs \<Rightarrow> Normal (zs @ filter (\<lambda>x. x = JUndefined) xs)
      | Throw e \<Rightarrow> Throw e
      | Unmodelled \<Rightarrow> Unmodelled)"

definition territory_url :: string where
  "territory_url = ''/data/ca_businesses_standardized_by_zip_code.json''"

text \<open>
  The body of the \<^verbatim>\<open>try\<close> block. The spread allocates the copy, \<^verbatim>\<open>sort\<close> overwrites the
  copy's cell, the result object is allocated last.
\<close>

definition getTerritoryMetrics_try :: "env \<Rightarrow> heap \<Rightarrow> (jsval \<times> heap) completion" where
  "getTerritoryMetrics_try ev h =
     (case fetch ev territory_url of
        FetchRejected e \<Rightarrow> Throw e
      | FetchResolved response \<Rightarrow>
          if \<not> ok response
          then Throw (Error (''Failed to load territory metrics: '' @ string_of_nat (fetch_status response)))
          else
            (case json response of
               Inl e \<Rightarrow> Throw e
             | Inr payload \<Rightarrow>
            (case get_prop h payload ''territories'' of
               Inl e \<Rightarrow> Throw e
             | Inr tv \<Rightarrow>
                 (let (territories, h1) = alloc h (ArrCell (if isArray h tv then elems h tv else []))
                  in case array_sort (compare_count h1) (elems h1 (JRef territories)) of
                       Throw e \<Rightarrow> Throw e
                     | Unmodelled \<Rightarrow> Unmodelled
                     | Normal sorted_ts \<Rightarrow>
                         (let h2 = h1 [territories := ArrCell sorted_ts]
                          in case get_prop h2 payload ''group_by'' of
                               Inl e \<Rightarrow> Throw e
                             | Inr g \<Rightarrow>
                            (case get_prop h2 payload ''summary'' of
                               Inl e \<Rightarrow> Throw e
                             | Inr s \<Rightarrow>
                                 (let (d, h3) =
                                        alloc h2 (ObjCell
                                          [ (''groupBy'', js_or g (JStr ''zip_code'')),
                                            (''summary'', js_or s JNull),
                                            (''territories'', JRef territories) ])
                                  in Normal (JRef d, h3))))))))"

text \<open>
  \<open>None\<close>: the input is one the model does not cover. Otherwise the envelope and the world
  after the call; what a throwing \<^verbatim>\<open>try\<close> block had allocated is unreachable and dropped.
\<close>

definition getTerritoryMetrics :: "bool \<Rightarrow> env \<Rightarrow> world \<Rightarrow> (exn envelope \<times> world) option" where
  "getTerritoryMetrics useMock ev w =
     (let w1 = w \<lparr> net_log := net_log w @ [Fetch territory_url] \<rparr>
      in case getTerritoryMetrics_try ev (heap w1) of
           Normal (d, h') \<Rightarrow> Some (\<lparr> data = d, error = None \<rparr>, w1 \<lparr> heap := h' \<rparr>)
         | Throw e \<Rightarrow> Some (\<lparr> data = JNull, error = Some e \<rparr>, w1)
         | Unmodelled \<Rightarrow> None)"

section \<open>Fetch lifecycle hook (hooks/useApi)\<close>

text \<open>Modelled from the spec: the hook \<^verbatim>\<open>useApi\<close> (hooks/useApi.js) is imported by the
  application (App.jsx) and described by the specification, section 4.4; its source file
  is missing. The state is the one of section 3:
  data, loading, error and the internal generation counter.
\<close>

record 'e fetch_state =
  st_data :: jsval
  loading :: bool
  st_error :: "'e option"
  generation :: nat

text \<open>Modelled from the spec: entering \<^verbatim>\<open>loading\<close> (on mount, on a change of the trigger, on
  \<^verbatim>\<open>refetch\<close>) clears the previous error, sets \<^verbatim>\<open>loading\<close>, increments the generation
  counter and captures its value, which is returned with the new state.
\<close>

definition start_call :: "'e fetch_state \<Rightarrow> nat \<times> 'e fetch_state" where
  "start_call s =
     (generation s + 1,
      s \<lparr> loading := True, st_error := None, generation := generation s + 1 \<rparr>)"

text \<open>Modelled from the spec: when the producer of the call that captured \<open>g\<close> resolves, the
  result is adopted and \<^verbatim>\<open>loading\<close> cleared if the generation still is \<open>g\<close>; otherwise the
  result is discarded.
\<close>

definition resolve_call :: "nat \<Rightarrow> 'e envelope \<Rightarrow> 'e fetch_state \<Rightarrow> 'e fetch_state" where
  "resolve_call g r s =
     (if generation s = g
      then s \<lparr> st_data := data r, st_error := error r, loading := False \<rparr>
      else s)"

text \<open>Modelled from the spec: the events of one hook instance, in the order they happen. A
  start is a mount, a change of the trigger or a \<^verbatim>\<open>refetch\<close>; a resolution carries the
  generation its call captured and the envelope its producer resolved with.
\<close>

datatype 'e event = Start | Resolve nat "'e envelope"

fun step :: "'e fetch_state \<Rightarrow> 'e event \<Rightarrow> 'e fetch_state" where
  "step s Start = snd (start_call s)"
| "step s (Resolve g r) = resolve_call g r s"

definition run :: "'e fetch_state \<Rightarrow> 'e event list \<Rightarrow> 'e fetch_state" where
  "run s evs = foldl step s evs"

text \<open>A late event for generation \<open>g\<close>: the resolution of a call that started before it.\<close>

fun late :: "nat \<Rightarrow> 'e event \<Rightarrow> bool" where
  "late g Start = False"
| "late g (Resolve g' r) = (g' < g)"

section \<open>Properties stated by the specification\<close>

text \<open>Exactly one of \<^verbatim>\<open>data\<close> and \<^verbatim>\<open>error\<close> is non-null.\<close>

definition exclusive :: "'e envelope \<Rightarrow> bool" where
  "exclusive r = ((data r = JNull) \<noteq> (error r = None))"

text \<open>
  The values of a field over the records, and the number of distinct values present. A
  value is present when the loop's own test \<^verbatim>\<open>if (rec.k)\<close> accepts it: a missing field,
  \<^verbatim>\<open>null\<close>, \<^verbatim>\<open>false\<close>, \<^verbatim>\<open>0\<close> and the empty string are not.
\<close>

definition field_values :: "heap \<Rightarrow> jsval list \<Rightarrow> string \<Rightarrow> jsval list" where
  "field_values h rs k = map (\<lambda>r. case get_prop h r k of Inr v \<Rightarrow> v | Inl e \<Rightarrow> JUndefined) rs"

definition distinct_count :: "heap \<Rightarrow> jsval list \<Rightarrow> string \<Rightarrow> nat" where
  "distinct_count h rs k = card (set (filter truthy (field_values h rs k)))"

text \<open>A record whose fields can be read: anything but \<^verbatim>\<open>null\<close> and \<^verbatim>\<open>undefined\<close>.\<close>

definition readable :: "jsval \<Rightarrow> bool" where
  "readable r = (r \<noteq> JNull \<and> r \<noteq> JUndefined)"

text \<open>The business count of a territory, a missing one being 0.\<close>

definition count_of :: "heap \<Rightarrow> jsval \<Rightarrow> int" where
  "count_of h t = (case get_prop h t ''business_count'' of Inr (JNum n) \<Rightarrow> n | _ \<Rightarrow> 0)"

text \<open>A territory whose \<^verbatim>\<open>business_count\<close> is a number, \<^verbatim>\<open>null\<close> or missing.\<close>

definition has_count :: "heap \<Rightarrow> jsval \<Rightarrow> bool" where
  "has_count h t =
     (case get_prop h t ''business_count'' of
        Inr (JNum n) \<Rightarrow> True
      | Inr JNull \<Rightarrow> True
      | Inr JUndefined \<Rightarrow> True
      | _ \<Rightarrow> False)"

text \<open>Descending by business count.\<close>

definition descending :: "heap \<Rightarrow> jsval list \<Rightarrow> bool" where
  "descending h ts = sorted_wrt (\<lambda>x y. count_of h y \<le> count_of h x) ts"

text \<open>The territories of a given count, in the order of the list.\<close>

definition with_count :: "heap \<Rightarrow> int \<Rightarrow> jsval list \<Rightarrow> jsval list" where
  "with_count h n ts = filter (\<lambda>t. count_of h t = n) ts"

text \<open>A static file served with status 200 whose body parses to the given value.\<close>

definition served :: "jsval \<Rightarrow> fetch_outcome" where
  "served v = FetchResolved \<lparr> ok = True, fetch_status = 200, json = Inr v \<rparr>"

section \<open>Example inputs\<close>

text \<open>The world right after the modules have been loaded.\<close>

definition initial_world :: world where
  "initial_world = \<lparr> heap = mockData_heap, net_log = [] \<rparr>"

text \<open>A server that answers every request with status 200 and the JSON body \<^verbatim>\<open>null\<close>.\<close>

definition null_response :: axios_response where
  "null_response =
     \<lparr> resp_status = 200, resp_statusText = ''OK'', resp_data = JNull, resp_url = Some ''/api/tables'' \<rparr>"

definition null_adapter :: "request \<Rightarrow> axios_outcome" where
  "null_adapter rq = Fulfilled null_response"

definition offline_fetch :: "string \<Rightarrow> fetch_outcome" where
  "offline_fetch u = FetchRejected (TypeError ''Failed to fetch'')"

definition null_env :: env where
  "null_env = \<lparr> adapter = null_adapter, fetch = offline_fetch, now = ''2024-01-16T12:00:00.000Z'' \<rparr>"

text \<open>A server that answers every request with status 200 and the JSON body \<^verbatim>\<open>"ok"\<close>.\<close>

definition healthy_response :: axios_response where
  "healthy_response =
     \<lparr> resp_status = 200, resp_statusText = ''OK'', resp_data = JStr ''ok'', resp_url = Some ''/health'' \<rparr>"

definition healthy_adapter :: "request \<Rightarrow> axios_outcome" where
  "healthy_adapter rq = Fulfilled healthy_response"

definition healthy_env :: env where
  "healthy_env = \<lparr> adapter = healthy_adapter, fetch = offline_fetch, now = ''2024-01-16T12:00:00.000Z'' \<rparr>"

text \<open>A server that answers every request with status 500, and static files that are missing.\<close>

definition server_error :: axios_error where
  "server_error =
     \<lparr> ax_message = ''Request failed with status code 500'',
       ax_code = Some ''ERR_BAD_RESPONSE'',
       ax_response = Some \<lparr> resp_status = 500, resp_statusText = ''Internal Server Error'',
                             resp_data = JStr ''server failure'', resp_url = Some ''/api/tables'' \<rparr>,
       ax_url = Some ''/api/tables'' \<rparr>"

definition failing_adapter :: "request \<Rightarrow> axios_outcome" where
  "failing_adapter rq = Rejected server_error"

definition missing_fetch :: "string \<Rightarrow> fetch_outcome" where
  "missing_fetch u =
     FetchResolved \<lparr> ok = False, fetch_status = 404,
                     json = Inl (SyntaxError ''Unexpected token < in JSON at position 0'') \<rparr>"

definition failing_env :: env where
  "failing_env = \<lparr> adapter = failing_adapter, fetch = missing_fetch, now = ''2024-01-16T12:00:00.000Z'' \<rparr>"

text \<open>Static files that are served with status 200 and a body that is not JSON.\<close>

definition garbled_fetch :: "string \<Rightarrow> fetch_outcome" where
  "garbled_fetch u =
     FetchResolved \<lparr> ok = True, fetch_status = 200,
                     json = Inl (SyntaxError ''Unexpected token < in JSON at position 0'') \<rparr>"

definition garbled_env :: env where
  "garbled_env = \<lparr> adapter = failing_adapter, fetch = garbled_fetch, now = ''2024-01-16T12:00:00.000Z'' \<rparr>"

definition offline_env :: env where
  "offline_env = \<lparr> adapter = failing_adapter, fetch = offline_fetch, now = ''2024-01-16T12:00:00.000Z'' \<rparr>"

text \<open>The error axios rejects with when the configured timeout elapses without a response.\<close>

definition timeout_error :: axios_error where
  "timeout_error =
     \<lparr> ax_message = ''timeout of 30000ms exceeded'',
       ax_code = Some ''ECONNABORTED'',
       ax_response = None,
       ax_url = Some ''/api/tables'' \<rparr>"

text \<open>Two results a producer may resolve with, and a hook state before any call.\<close>

definition result_A :: "exn envelope" where
  "result_A = \<lparr> data = JNull, error = Some (Error ''Failed to load territory metrics: 404'') \<rparr>"

definition result_B :: "exn envelope" where
  "result_B = \<lparr> data = JRef 21, error = None \<rparr>"

definition idle_state :: "exn fetch_state" where
  "idle_state = \<lparr> st_data = JNull, loading = False, st_error = None, generation = 0 \<rparr>"

text \<open>
  The bulk export with the three records \<^verbatim>\<open>{zip_code: "A", city: "X"}\<close>,
  \<^verbatim>\<open>{zip_code: "A", city: "Y"}\<close>, \<^verbatim>\<open>{zip_code: "B", city: "X"}\<close>, parsed into the heap
  after the fixtures (addresses 22 to 25).
\<close>

definition records_world :: world where
  "records_world =
     \<lparr> heap = mockData_heap @
         [ ObjCell [(''zip_code'', JStr ''A''), (''city'', JStr ''X'')],
           ObjCell [(''zip_code'', JStr ''A''), (''city'', JStr ''Y'')],
           ObjCell [(''zip_code'', JStr ''B''), (''city'', JStr ''X'')],
           ArrCell [JRef 22, JRef 23, JRef 24] ],
       net_log = [] \<rparr>"

definition records_fetch :: "string \<Rightarrow> fetch_outcome" where
  "records_fetch u = served (JRef 25)"

definition records_env :: env where
  "records_env = \<lparr> adapter = failing_adapter, fetch = records_fetch, now = ''2024-01-16T12:00:00.000Z'' \<rparr>"

text \<open>
  A territory file with four territories of counts 5, 5, 10 and 0 in that order
  (addresses 22 to 25), their array (26), the summary (27) and the payload (28).
\<close>

definition territory_world :: world where
  "territory_world =
     \<lparr> heap = mockData_heap @
         [ ObjCell [(''territory_id'', JStr ''92101''), (''business_count'', JNum 5)],
           ObjCell [(''territory_id'', JStr ''92102''), (''business_count'', JNum 5)],
           ObjCell [(''territory_id'', JStr ''92103''), (''business_count'', JNum 10)],
           ObjCell [(''territory_id'', JStr ''92104''), (''business_count'', JNum 0)],
           ArrCell [JRef 22, JRef 23, JRef 24, JRef 25],
           ObjCell [(''total_businesses'', JNum 20)],
           ObjCell [(''group_by'', JStr ''zip_code''), (''summary'', JRef 27), (''territories'', JRef 26)] ],
       net_log = [] \<rparr>"

definition territory_fetch :: "string \<Rightarrow> fetch_outcome" where
  "territory_fetch u = served (JRef 28)"

definition territory_env :: env where
  "territory_env = \<lparr> adapter = failing_adapter, fetch = territory_fetch, now = ''2024-01-16T12:00:00.000Z'' \<rparr>"

text \<open>
  A territory file whose \<^verbatim>\<open>territories\<close> is a string, whose \<^verbatim>\<open>group_by\<close> is empty and which
  has no \<^verbatim>\<open>summary\<close> (address 22).
\<close>

definition malformed_world :: world where
  "malformed_world =
     \<lparr> heap = mockData_heap @
         [ ObjCell [(''group_by'', JStr []), (''territories'', JStr ''none'')] ],
       net_log = [] \<rparr>"

definition malformed_fetch :: "string \<Rightarrow> fetch_outcome" where
  "malformed_fetch u = served (JRef 22)"

definition malformed_env :: env where
  "malformed_env = \<lparr> adapter = failing_adapter, fetch = malformed_fetch, now = ''2024-01-16T12:00:00.000Z'' \<rparr>"

section \<open>Auxiliary facts\<close>

subsection \<open>Transport errors\<close>

text \<open>The network flag is set exactly when the error carries no status.\<close>

lemma enhancedError_network_status:
  "isNetworkError (enhancedError e) \<longleftrightarrow> status (enhancedError e) = None"
  by (simp add: enhancedError_def)

text \<open>Every error without a response whose code is the abort code has both flags set.\<close>

lemma enhancedError_abort:
  assumes "ax_code e = Some ''ECONNABORTED''" and "ax_response e = None"
  shows "isTimeout (enhancedError e) \<and> isNetworkError (enhancedError e)"
  using assms by (simp add: enhancedError_def)

subsection \<open>Heap\<close>

lemma get_prop_append_arr: "get_prop (h @ [ArrCell xs]) v k = get_prop h v k"
  by (cases v) (auto simp: get_prop_def cell_at_def nth_append split: cell.splits)

lemma get_prop_total:
  assumes "get_prop h v k = Inr x"
  shows "\<exists>y. get_prop h' v k' = Inr y"
  using assms by (cases v) (auto simp: get_prop_def split: option.splits cell.splits)

lemma get_prop_readable: "readable r \<Longrightarrow> \<exists>x. get_prop h r k = Inr x"
  by (cases r) (auto simp: readable_def get_prop_def split: option.splits cell.splits)

lemma elems_alloc: "elems (h @ [ArrCell xs]) (JRef (length h)) = xs"
  by (simp add: elems_def cell_at_def)

lemma update_alloc: "(h @ [c]) [length h := c'] = h @ [c']"
  by simp

subsection \<open>Sets\<close>

lemma set_add_distinct: "distinct s \<Longrightarrow> distinct (set_add s v)"
  by (simp add: set_add_def)

lemma set_set_add: "set (set_add s v) = insert v (set s)"
  by (auto simp: set_add_def)

lemma foldl_set_add:
  "distinct s \<Longrightarrow> distinct (foldl set_add s vs) \<and> set (foldl set_add s vs) = set s \<union> set vs"
proof (induction vs arbitrary: s)
  case Nil
  then show ?case by simp
next
  case (Cons v vs)
  from Cons.prems have "distinct (set_add s v)" by (rule set_add_distinct)
  from Cons.IH [OF this] show ?case by (simp add: set_set_add)
qed

lemma length_foldl_set_add: "length (foldl set_add [] vs) = card (set vs)"
proof -
  have "distinct (foldl set_add [] vs)" and "set (foldl set_add [] vs) = set vs"
    using foldl_set_add [of "[]" vs] by simp_all
  then show ?thesis by (metis distinct_card)
qed

subsection \<open>The statistics loop\<close>

lemma stats_loop_readable:
  assumes "\<forall>r \<in> set rs. readable r"
  shows "stats_loop h rs acc =
           Inr \<lparr> totalBusinesses = totalBusinesses acc + length rs,
                 zips = foldl set_add (zips acc) (filter truthy (field_values h rs ''zip_code'')),
                 blockgroups = foldl set_add (blockgroups acc) (filter truthy (field_values h rs ''blockgroup'')),
                 cities = foldl set_add (cities acc) (filter truthy (field_values h rs ''city'')) \<rparr>"
  using assms
proof (induction rs arbitrary: acc)
  case Nil
  then show ?case by (simp add: field_values_def)
next
  case (Cons r rs)
  from Cons.prems have r: "readable r" and rs: "\<forall>r \<in> set rs. readable r" by simp_all
  from r obtain z where z: "get_prop h r ''zip_code'' = Inr z"
    using get_prop_readable by blast
  from r obtain b where b: "get_prop h r ''blockgroup'' = Inr b"
    using get_prop_readable by blast
  from r obtain c where c: "get_prop h r ''city'' = Inr c"
    using get_prop_readable by blast
  show ?case
    by (simp add: z b c Cons.IH [OF rs] field_values_def Let_def)
qed

text \<open>
  Where no record holds a falsy value in the field (every value is missing or accepted by
  the loop's test), the count is the number of distinct values of the field that exist.
\<close>

lemma distinct_count_defined:
  assumes "\<forall>v \<in> set (field_values h rs k). v = JUndefined \<or> truthy v"
  shows "distinct_count h rs k = card (set (field_values h rs k) - {JUndefined})"
proof -
  have "set (filter truthy (field_values h rs k)) = set (field_values h rs k) - {JUndefined}"
    using assms by auto
  then show ?thesis by (simp add: distinct_count_def)
qed

subsection \<open>Sorting\<close>

lemma insert_by_insort_key:
  assumes "\<And>y. y \<in> set ys \<Longrightarrow> cmp x y = Normal (key y - key x)"
  shows "insert_by cmp x ys = Normal (insort_key (\<lambda>t. - key t) x ys)"
  using assms by (induction ys) auto

lemma sort_by_sort_key:
  assumes "\<And>x y. x \<in> set xs \<Longrightarrow> y \<in> set xs \<Longrightarrow> cmp x y = Normal (key y - key x)"
  shows "sort_by cmp xs = Normal (sort_key (\<lambda>t. - key t) xs)"
  using assms
proof (induction xs)
  case Nil
  then show ?case by simp
next
  case (Cons x xs)
  have "sort_by cmp xs = Normal (sort_key (\<lambda>t. - key t) xs)"
    by (rule Cons.IH) (simp add: Cons.prems)
  moreover have "insert_by cmp x (sort_key (\<lambda>t. - key t) xs)
                   = Normal (insort_key (\<lambda>t. - key t) x (sort_key (\<lambda>t. - key t) xs))"
    by (rule insert_by_insort_key) (simp add: Cons.prems)
  ultimately show ?case by simp
qed

lemma compare_count_has_count:
  assumes "has_count h a" and "has_count h b"
  shows "compare_count h a b = Normal (count_of h b - count_of h a)"
  using assms
  by (auto simp: has_count_def compare_count_def count_of_def js_or_def
      split: sum.splits jsval.splits)

lemma has_count_append_arr: "has_count (h @ [ArrCell xs]) t = has_count h t"
  by (simp add: has_count_def get_prop_append_arr)

lemma count_of_append_arr: "count_of (h @ [ArrCell xs]) t = count_of h t"
  by (simp add: count_of_def get_prop_append_arr)

lemma has_count_defined: "has_count h t \<Longrightarrow> t \<noteq> JUndefined"
  by (auto simp: has_count_def get_prop_def)

lemma array_sort_has_count:
  assumes "\<forall>t \<in> set ts. has_count h t"
  shows "array_sort (compare_count h) ts = Normal (sort_key (\<lambda>t. - count_of h t) ts)"
proof -
  have "filter (\<lambda>x. x \<noteq> JUndefined) ts = ts"
    using assms by (auto simp: filter_id_conv dest: has_count_defined)
  moreover have "filter (\<lambda>x. x = JUndefined) ts = []"
    using assms by (auto simp: filter_empty_conv dest: has_count_defined)
  moreover have "sort_by (compare_count h) ts = Normal (sort_key (\<lambda>t. - count_of h t) ts)"
    by (rule sort_by_sort_key) (simp add: assms compare_count_has_count)
  ultimately show ?thesis by (simp add: array_sort_def)
qed

lemma descending_sort_key: "descending h (sort_key (\<lambda>t. - count_of h t) ts)"
proof -
  have "sorted (map (\<lambda>t. - count_of h t) (sort_key (\<lambda>t. - count_of h t) ts))"
    by (rule sorted_sort_key)
  then show ?thesis by (simp add: descending_def sorted_map)
qed

lemma with_count_sort_key: "with_count h n (sort_key (\<lambda>t. - count_of h t) ts) = with_count h n ts"
proof -
  have "filter (\<lambda>t. - count_of h t = - n) (sort_key (\<lambda>t. - count_of h t) ts)
          = filter (\<lambda>t. - count_of h t = - n) ts"
    by (rule sort_key_stable)
  then show ?thesis by (simp add: with_count_def)
qed


subsection \<open>The territory computation\<close>

lemma getTerritoryMetrics_try_Normal:
  assumes "fetch ev territory_url = FetchResolved response"
      and "ok response"
      and "json response = Inr payload"
      and "get_prop h payload ''territories'' = Inr tv"
      and "xs = (if isArray h tv then elems h tv else [])"
      and "array_sort (compare_count (h @ [ArrCell xs])) xs = Normal out"
      and "get_prop h payload ''group_by'' = Inr g"
      and "get_prop h payload ''summary'' = Inr s"
  shows "getTerritoryMetrics_try ev h =
           Normal (JRef (Suc (length h)),
                   h @ [ArrCell out,
                        ObjCell [ (''groupBy'', js_or g (JStr ''zip_code'')),
                                  (''summary'', js_or s JNull),
                                  (''territories'', JRef (length h)) ]])"
proof -
  have "alloc h (ArrCell xs) = (length h, h @ [ArrCell xs])"
    by (simp add: alloc_def)
  moreover have "elems (h @ [ArrCell xs]) (JRef (length h)) = xs"
    by (rule elems_alloc)
  moreover have "(h @ [ArrCell xs]) [length h := ArrCell out] = h @ [ArrCell out]"
    by simp
  moreover have "get_prop (h @ [ArrCell out]) payload ''group_by'' = Inr g"
    by (simp add: get_prop_append_arr assms(7))
  moreover have "get_prop (h @ [ArrCell out]) payload ''summary'' = Inr s"
    by (simp add: get_prop_append_arr assms(8))
  moreover have "alloc (h @ [ArrCell out]) c = (Suc (length h), h @ [ArrCell out, c])" for c
    by (simp add: alloc_def)
  ultimately show ?thesis
    using assms(1-6) by (simp add: getTerritoryMetrics_try_def)
qed

lemma getTerritoryMetrics_try_prefix:
  assumes "getTerritoryMetrics_try ev h = Normal (d, h')"
  shows "take (length h) h' = h"
  using assms
  by (auto simp: getTerritoryMetrics_try_def alloc_def Let_def
      split: fetch_outcome.splits if_splits sum.splits completion.splits)

lemma getTerritoryMetrics_prefix:
  assumes "getTerritoryMetrics useMock ev w = Some (r, w')"
  shows "take (length (heap w)) (heap w') = heap w"
proof (cases "getTerritoryMetrics_try ev (heap w)")
  case (Normal p)
  obtain d h' where p: "p = (d, h')" by (cases p)
  with Normal assms have "heap w' = h'"
    by (auto simp: getTerritoryMetrics_def)
  with Normal p show ?thesis
    by (simp add: getTerritoryMetrics_try_prefix)
next
  case (Throw e)
  with assms show ?thesis by (auto simp: getTerritoryMetrics_def)
next
  case Unmodelled
  with assms show ?thesis by (simp add: getTerritoryMetrics_def)
qed


lemma length_mockData_heap: "length mockData_heap = 22"
  by (simp add: mockData_heap_def)

lemma territory_world_result:
  "getTerritoryMetrics False territory_env territory_world =
     Some (\<lparr> data = JRef 30, error = None \<rparr>,
           territory_world
             \<lparr> net_log := net_log territory_world @ [Fetch territory_url],
               heap := heap territory_world @
                 [ArrCell [JRef 24, JRef 22, JRef 23, JRef 25],
                  ObjCell [ (''groupBy'', JStr ''zip_code''), (''summary'', JRef 27),
                            (''territories'', JRef 29) ]] \<rparr>)"
  by code_simp

subsection \<open>The hook\<close>

lemma run_late:
  assumes "list_all (late (generation s)) evs"
  shows "run s evs = s"
  using assms
proof (induction evs)
  case Nil
  then show ?case by (simp add: run_def)
next
  case (Cons ev evs)
  from Cons.prems have "late (generation s) ev" and rest: "list_all (late (generation s)) evs"
    by simp_all
  then have "step s ev = s"
    by (cases ev) (simp_all add: resolve_call_def)
  with Cons.IH [OF rest] show ?case
    by (simp add: run_def)
qed

lemma run_append: "run s (xs @ ys) = run (run s xs) ys"
  by (simp add: run_def)

section \<open>The claims\<close>

text \<open>
  C1 (as stated, refuted): the specification says that the envelope of every call to the
  request wrapper has exactly one of \<^verbatim>\<open>data\<close> and \<^verbatim>\<open>error\<close> non-null, also for a null
  payload. A server that answers \<^verbatim>\<open>GET /api/tables\<close> with status 200 and the JSON body
  \<^verbatim>\<open>null\<close> gives \<^verbatim>\<open>{ data: null, error: null }\<close>.
\<close>

theorem apiRequest_exclusive_counterexample:
  "\<not> exclusive (fst (api_get null_env ''/api/tables'' [] initial_world))"
  by (simp add: exclusive_def api_get_def apiRequest_def apiClient_def null_env_def
        null_adapter_def null_response_def)

text \<open>
  C1 (amended): for every call to the request wrapper, on transport success \<^verbatim>\<open>error\<close> is
  null and \<^verbatim>\<open>data\<close> is the response payload, on transport failure \<^verbatim>\<open>data\<close> is null and
  \<^verbatim>\<open>error\<close> is the normalized error; the two are never both non-null, and they are both
  null exactly when a successful response carries a null payload. Each verb helper is the
  wrapper at its method.
\<close>

theorem apiRequest_envelope:
  assumes "r = fst (apiRequest ev m u d opts w)"
      and "out = adapter ev \<lparr> req_method = m, req_url = u, req_data = d, req_options = opts \<rparr>"
  shows "(\<forall>response. out = Fulfilled response \<longrightarrow> data r = resp_data response \<and> error r = None)
       \<and> (\<forall>e. out = Rejected e \<longrightarrow> data r = JNull \<and> error r = Some (enhancedError e))
       \<and> \<not> (data r \<noteq> JNull \<and> error r \<noteq> None)
       \<and> (exclusive r \<longleftrightarrow> \<not> (\<exists>response. out = Fulfilled response \<and> resp_data response = JNull))
       \<and> api_get ev u opts w = apiRequest ev GET u JNull opts w
       \<and> api_post ev u d opts w = apiRequest ev POST u d opts w
       \<and> api_put ev u d opts w = apiRequest ev PUT u d opts w
       \<and> api_patch ev u d opts w = apiRequest ev PATCH u d opts w
       \<and> api_delete ev u opts w = apiRequest ev DELETE u JNull opts w"
  using assms
  by (cases "adapter ev \<lparr> req_method = m, req_url = u, req_data = d, req_options = opts \<rparr>")
     (auto simp: apiRequest_def apiClient_def exclusive_def Let_def
        api_get_def api_post_def api_put_def api_patch_def api_delete_def)

theorem apiRequest_envelope_witness:
  "data (fst (apiRequest failing_env GET ''/api/tables'' JNull [] initial_world)) = JNull
   \<and> error (fst (apiRequest failing_env GET ''/api/tables'' JNull [] initial_world))
       = Some (enhancedError server_error)
   \<and> exclusive (fst (apiRequest failing_env GET ''/api/tables'' JNull [] initial_world))
   \<and> data (fst (apiRequest healthy_env GET ''/health'' JNull [] initial_world)) = JStr ''ok''
   \<and> error (fst (apiRequest healthy_env GET ''/health'' JNull [] initial_world)) = None
   \<and> exclusive (fst (apiRequest healthy_env GET ''/health'' JNull [] initial_world))"
proof -
  have a: "adapter failing_env
             \<lparr> req_method = GET, req_url = ''/api/tables'', req_data = JNull, req_options = [] \<rparr>
           = Rejected server_error"
    by (simp add: failing_env_def failing_adapter_def)
  have b: "adapter healthy_env
             \<lparr> req_method = GET, req_url = ''/health'', req_data = JNull, req_options = [] \<rparr>
           = Fulfilled healthy_response"
    by (simp add: healthy_env_def healthy_adapter_def)
  have c: "resp_data healthy_response = JStr ''ok''"
    by (simp add: healthy_response_def)
  from apiRequest_envelope [OF refl refl, of failing_env GET "''/api/tables''" JNull "[]" initial_world]
       apiRequest_envelope [OF refl refl, of healthy_env GET "''/health''" JNull "[]" initial_world]
  show ?thesis
    by (simp add: a b c)
qed

text \<open>
  C2 (the code at a timeout): the specification says that a request that exceeds the configured
  timeout with no response yields \<^verbatim>\<open>isTimeout = true\<close>, \<^verbatim>\<open>isNetworkError = false\<close> and an
  undefined status. For the error axios rejects with in that case the interceptor sets
  both flags; the error panel, which tests the network flag before the timeout flag, then
  shows the connection message and never its timeout message.
\<close>

theorem enhancedError_timeout:
  "isTimeout (enhancedError timeout_error)
   \<and> isNetworkError (enhancedError timeout_error)
   \<and> status (enhancedError timeout_error) = None
   \<and> getErrorMessage (Some (enhancedError timeout_error))
       = ''Unable to connect to the server. Please check your connection.''"
  by (simp add: enhancedError_def timeout_error_def getErrorMessage_def)

text \<open>
  C3: with mock mode disabled, whenever the request wrapper yields a non-null error each
  list method (\<^verbatim>\<open>getTables\<close>, \<^verbatim>\<open>getExports\<close>, \<^verbatim>\<open>getNotebooks\<close>, \<^verbatim>\<open>getScripts\<close>) returns its
  fixture list with \<^verbatim>\<open>error: null\<close>, the same envelope as in mock mode.
\<close>

theorem list_fallback:
  "(error (fst (api_get ev ''/api/tables'' [] w)) \<noteq> None \<longrightarrow>
      fst (getTables False ev w) = \<lparr> data = mockData_tables, error = None \<rparr>
      \<and> fst (getTables False ev w) = fst (getTables True ev w))
   \<and> (error (fst (api_get ev ''/api/exports'' [] w)) \<noteq> None \<longrightarrow>
      fst (getExports False ev w) = \<lparr> data = mockData_exports, error = None \<rparr>
      \<and> fst (getExports False ev w) = fst (getExports True ev w))
   \<and> (error (fst (api_get ev ''/api/notebooks'' [] w)) \<noteq> None \<longrightarrow>
      fst (getNotebooks False ev w) = \<lparr> data = mockData_notebooks, error = None \<rparr>
      \<and> fst (getNotebooks False ev w) = fst (getNotebooks True ev w))
   \<and> (error (fst (api_get ev ''/api/scripts'' [] w)) \<noteq> None \<longrightarrow>
      fst (getScripts False ev w) = \<lparr> data = mockData_scripts, error = None \<rparr>
      \<and> fst (getScripts False ev w) = fst (getScripts True ev w))"
  by (simp add: getTables_def getExports_def getNotebooks_def getScripts_def
        mockApi_getTables_def mockApi_getExports_def mockApi_getNotebooks_def mockApi_getScripts_def
        split: prod.splits)

theorem list_fallback_witness:
  "error (fst (api_get failing_env ''/api/tables'' [] initial_world)) = Some (enhancedError server_error)
   \<and> fst (getTables False failing_env initial_world) = \<lparr> data = mockData_tables, error = None \<rparr>
   \<and> error (fst (api_get failing_env ''/api/exports'' [] initial_world)) = Some (enhancedError server_error)
   \<and> fst (getExports False failing_env initial_world) = \<lparr> data = mockData_exports, error = None \<rparr>
   \<and> error (fst (api_get failing_env ''/api/notebooks'' [] initial_world)) = Some (enhancedError server_error)
   \<and> fst (getNotebooks False failing_env initial_world) = \<lparr> data = mockData_notebooks, error = None \<rparr>
   \<and> error (fst (api_get failing_env ''/api/scripts'' [] initial_world)) = Some (enhancedError server_error)
   \<and> fst (getScripts False failing_env initial_world) = \<lparr> data = mockData_scripts, error = None \<rparr>"
proof -
  have e: "error (fst (api_get failing_env u [] initial_world)) = Some (enhancedError server_error)" for u
    by (simp add: api_get_def apiRequest_def apiClient_def failing_env_def failing_adapter_def)
  from list_fallback [of failing_env initial_world] show ?thesis
    by (simp add: e)
qed

text \<open>
  C4: when the territory file is served and its territories are an array of territories
  whose \<^verbatim>\<open>business_count\<close> is a number, \<^verbatim>\<open>null\<close> or missing, \<^verbatim>\<open>getTerritoryMetrics\<close> returns
  them in a new array that is descending by business count (a missing count being 0) and
  stable: the territories of any one count keep the order they had. For the counts
  5, 5, 10, 0 the order is 10, 5, 5, 0 with the two territories of count 5 as they came.
\<close>

theorem getTerritoryMetrics_sorted:
  assumes "fetch ev territory_url = FetchResolved response"
      and "ok response"
      and "json response = Inr payload"
      and "get_prop (heap w) payload ''territories'' = Inr (JRef a)"
      and "cell_at (heap w) a = Some (ArrCell ts)"
      and "\<forall>t \<in> set ts. has_count (heap w) t"
  shows "\<exists>out g s.
           getTerritoryMetrics useMock ev w =
             Some (\<lparr> data = JRef (Suc (length (heap w))), error = None \<rparr>,
                   w \<lparr> net_log := net_log w @ [Fetch territory_url],
                       heap := heap w @
                         [ArrCell out,
                          ObjCell [ (''groupBy'', g), (''summary'', s),
                                    (''territories'', JRef (length (heap w))) ]] \<rparr>)
           \<and> descending (heap w) out
           \<and> (\<forall>n. with_count (heap w) n out = with_count (heap w) n ts)
           \<and> length out = length ts"
proof -
  let ?h = "heap w"
  let ?out = "sort_key (\<lambda>t. - count_of ?h t) ts"
  have arr: "isArray ?h (JRef a)" and el: "elems ?h (JRef a) = ts"
    using assms(5) by (simp_all add: isArray_def elems_def)
  have "\<forall>t \<in> set ts. has_count (?h @ [ArrCell ts]) t"
    using assms(6) by (simp add: has_count_append_arr)
  then have "array_sort (compare_count (?h @ [ArrCell ts])) ts
               = Normal (sort_key (\<lambda>t. - count_of (?h @ [ArrCell ts]) t) ts)"
    by (rule array_sort_has_count)
  then have srt: "array_sort (compare_count (?h @ [ArrCell ts])) ts = Normal ?out"
    by (simp add: count_of_append_arr)
  obtain g where g: "get_prop ?h payload ''group_by'' = Inr g"
    using get_prop_total [OF assms(4)] by blast
  obtain s where s: "get_prop ?h payload ''summary'' = Inr s"
    using get_prop_total [OF assms(4)] by blast
  have "getTerritoryMetrics_try ev ?h =
          Normal (JRef (Suc (length ?h)),
                  ?h @ [ArrCell ?out,
                        ObjCell [ (''groupBy'', js_or g (JStr ''zip_code'')),
                                  (''summary'', js_or s JNull),
                                  (''territories'', JRef (length ?h)) ]])"
    using assms(1-4) _ srt g s
    by (rule getTerritoryMetrics_try_Normal) (simp add: arr el)
  then have "getTerritoryMetrics useMock ev w =
             Some (\<lparr> data = JRef (Suc (length ?h)), error = None \<rparr>,
                   w \<lparr> net_log := net_log w @ [Fetch territory_url],
                       heap := ?h @
                         [ArrCell ?out,
                          ObjCell [ (''groupBy'', js_or g (JStr ''zip_code'')),
                                    (''summary'', js_or s JNull),
                                    (''territories'', JRef (length ?h)) ]] \<rparr>)"
    by (simp add: getTerritoryMetrics_def)
  moreover have "descending ?h ?out"
    by (rule descending_sort_key)
  moreover have "\<forall>n. with_count ?h n ?out = with_count ?h n ts"
    by (simp add: with_count_sort_key)
  moreover have "length ?out = length ts"
    by simp
  ultimately show ?thesis by blast
qed

theorem getTerritoryMetrics_sorted_witness:
  "fetch territory_env territory_url = served (JRef 28)
   \<and> get_prop (heap territory_world) (JRef 28) ''territories'' = Inr (JRef 26)
   \<and> cell_at (heap territory_world) 26 = Some (ArrCell [JRef 22, JRef 23, JRef 24, JRef 25])
   \<and> has_count (heap territory_world) (JRef 22) \<and> has_count (heap territory_world) (JRef 23)
   \<and> has_count (heap territory_world) (JRef 24) \<and> has_count (heap territory_world) (JRef 25)
   \<and> map (count_of (heap territory_world)) [JRef 22, JRef 23, JRef 24, JRef 25] = [5, 5, 10, 0]
   \<and> getTerritoryMetrics False territory_env territory_world =
       Some (\<lparr> data = JRef 30, error = None \<rparr>,
             territory_world
               \<lparr> net_log := net_log territory_world @ [Fetch territory_url],
                 heap := heap territory_world @
                   [ArrCell [JRef 24, JRef 22, JRef 23, JRef 25],
                    ObjCell [ (''groupBy'', JStr ''zip_code''), (''summary'', JRef 27),
                              (''territories'', JRef 29) ]] \<rparr>)
   \<and> descending (heap territory_world) [JRef 24, JRef 22, JRef 23, JRef 25]
   \<and> with_count (heap territory_world) 5 [JRef 24, JRef 22, JRef 23, JRef 25] = [JRef 22, JRef 23]"
proof -
  let ?h = "heap territory_world"
  let ?ts = "[JRef 22, JRef 23, JRef 24, JRef 25]"
  have f: "fetch territory_env territory_url
             = FetchResolved \<lparr> ok = True, fetch_status = 200, json = Inr (JRef 28) \<rparr>"
    by (simp add: territory_env_def territory_fetch_def served_def)
  have okr: "ok \<lparr> ok = True, fetch_status = 200, json = Inr (JRef 28) \<rparr>"
    by simp
  have js: "json \<lparr> ok = True, fetch_status = 200, json = Inr (JRef 28) \<rparr> = Inr (JRef 28)"
    by simp
  have gp: "get_prop ?h (JRef 28) ''territories'' = Inr (JRef 26)"
    by (simp add: territory_world_def get_prop_def cell_at_def nth_append length_mockData_heap)
  have c: "cell_at ?h 26 = Some (ArrCell ?ts)"
    by (simp add: territory_world_def cell_at_def nth_append length_mockData_heap)
  have hc: "has_count ?h (JRef 22) \<and> has_count ?h (JRef 23)
            \<and> has_count ?h (JRef 24) \<and> has_count ?h (JRef 25)"
    by (simp add: territory_world_def has_count_def get_prop_def cell_at_def nth_append
          length_mockData_heap)
  then have hcs: "\<forall>t \<in> set ?ts. has_count ?h t"
    by simp
  have cnt: "map (count_of ?h) ?ts = [5, 5, 10, 0]"
    by (simp add: territory_world_def count_of_def get_prop_def cell_at_def nth_append
          length_mockData_heap)
  from getTerritoryMetrics_sorted [OF f okr js gp c hcs, of False]
  obtain out g s where
    res: "getTerritoryMetrics False territory_env territory_world =
            Some (\<lparr> data = JRef (Suc (length ?h)), error = None \<rparr>,
                  territory_world
                    \<lparr> net_log := net_log territory_world @ [Fetch territory_url],
                      heap := ?h @
                        [ArrCell out,
                         ObjCell [ (''groupBy'', g), (''summary'', s),
                                   (''territories'', JRef (length ?h)) ]] \<rparr>)"
    and d: "descending ?h out"
    and st: "\<forall>n. with_count ?h n out = with_count ?h n ?ts"
    by blast
  from res have "heap (snd (the (getTerritoryMetrics False territory_env territory_world)))
                   = ?h @ [ArrCell out,
                         ObjCell [ (''groupBy'', g), (''summary'', s),
                                   (''territories'', JRef (length ?h)) ]]"
    by simp
  then have out: "out = [JRef 24, JRef 22, JRef 23, JRef 25]"
    by (simp add: territory_world_result)
  have "with_count ?h 5 ?ts = [JRef 22, JRef 23]"
    using cnt by (simp add: with_count_def)
  with st out d f gp c hc cnt show ?thesis
    by (simp add: territory_world_result served_def)
qed

text \<open>
  C5: when the bulk export is served as an array of records (values whose fields can be
  read), the derived \<^verbatim>\<open>getStats\<close> returns a new statistics object in which
  \<^verbatim>\<open>totalBusinesses\<close> is the number of records, \<^verbatim>\<open>totalZipcodes\<close>, \<^verbatim>\<open>totalBlockGroups\<close> and
  \<^verbatim>\<open>totalCities\<close> are the numbers of distinct \<^verbatim>\<open>zip_code\<close>, \<^verbatim>\<open>blockgroup\<close> and \<^verbatim>\<open>city\<close>
  values present, and \<^verbatim>\<open>graphNodes\<close> and \<^verbatim>\<open>graphRelationships\<close> are null. For the three
  records A/X, A/Y, B/X without a block group the totals are 3, 2, 0 and 2.
\<close>

theorem getStats_derived:
  assumes "fetch ev stats_url = FetchResolved response"
      and "ok response"
      and "json response = Inr (JRef a)"
      and "cell_at (heap w) a = Some (ArrCell rs)"
      and "\<forall>r \<in> set rs. readable r"
  shows "getStats useMock ev w =
           (\<lparr> data = JRef (length (heap w)), error = None \<rparr>,
            w \<lparr> net_log := net_log w @ [Fetch stats_url],
                heap := heap w @
                  [ObjCell
                     [ (''totalBusinesses'', JNum (int (length rs))),
                       (''totalBlockGroups'', JNum (int (distinct_count (heap w) rs ''blockgroup''))),
                       (''totalCities'', JNum (int (distinct_count (heap w) rs ''city''))),
                       (''totalZipcodes'', JNum (int (distinct_count (heap w) rs ''zip_code''))),
                       (''graphNodes'', JNull),
                       (''graphRelationships'', JNull),
                       (''lastUpdated'', JStr (now ev)) ]] \<rparr>)"
proof -
  let ?h = "heap w"
  have it: "iterate ?h (JRef a) = Inr rs"
    using assms(4) by (simp add: iterate_def)
  have loop: "stats_loop ?h rs \<lparr> totalBusinesses = 0, zips = [], blockgroups = [], cities = [] \<rparr> =
          Inr \<lparr> totalBusinesses = length rs,
                zips = foldl set_add [] (filter truthy (field_values ?h rs ''zip_code'')),
                blockgroups = foldl set_add [] (filter truthy (field_values ?h rs ''blockgroup'')),
                cities = foldl set_add [] (filter truthy (field_values ?h rs ''city'')) \<rparr>"
    using stats_loop_readable [OF assms(5), of ?h
        "\<lparr> totalBusinesses = 0, zips = [], blockgroups = [], cities = [] \<rparr>"]
    by simp
  have "getStats_try ev ?h =
          Inr (JRef (length ?h),
               ?h @ [ObjCell
                     [ (''totalBusinesses'', JNum (int (length rs))),
                       (''totalBlockGroups'', JNum (int (distinct_count ?h rs ''blockgroup''))),
                       (''totalCities'', JNum (int (distinct_count ?h rs ''city''))),
                       (''totalZipcodes'', JNum (int (distinct_count ?h rs ''zip_code''))),
                       (''graphNodes'', JNull),
                       (''graphRelationships'', JNull),
                       (''lastUpdated'', JStr (now ev)) ]])"
    using assms(1-3)
    by (simp add: getStats_try_def it loop alloc_def length_foldl_set_add distinct_count_def)
  then show ?thesis
    by (simp add: getStats_def)
qed

theorem getStats_derived_witness:
  "fetch records_env stats_url = served (JRef 25)
   \<and> cell_at (heap records_world) 25 = Some (ArrCell [JRef 22, JRef 23, JRef 24])
   \<and> readable (JRef 22) \<and> readable (JRef 23) \<and> readable (JRef 24)
   \<and> getStats False records_env records_world =
       (\<lparr> data = JRef 26, error = None \<rparr>,
        records_world
          \<lparr> net_log := net_log records_world @ [Fetch stats_url],
            heap := heap records_world @
              [ObjCell
                 [ (''totalBusinesses'', JNum 3),
                   (''totalBlockGroups'', JNum 0),
                   (''totalCities'', JNum 2),
                   (''totalZipcodes'', JNum 2),
                   (''graphNodes'', JNull),
                   (''graphRelationships'', JNull),
                   (''lastUpdated'', JStr (now records_env)) ]] \<rparr>)"
proof -
  let ?h = "heap records_world"
  let ?rs = "[JRef 22, JRef 23, JRef 24]"
  have f: "fetch records_env stats_url
             = FetchResolved \<lparr> ok = True, fetch_status = 200, json = Inr (JRef 25) \<rparr>"
    by (simp add: records_env_def records_fetch_def served_def)
  have okr: "ok \<lparr> ok = True, fetch_status = 200, json = Inr (JRef 25) \<rparr>"
    by simp
  have js: "json \<lparr> ok = True, fetch_status = 200, json = Inr (JRef 25) \<rparr> = Inr (JRef 25)"
    by simp
  have c: "cell_at ?h 25 = Some (ArrCell ?rs)"
    by (simp add: records_world_def cell_at_def nth_append length_mockData_heap)
  have rd: "readable (JRef 22) \<and> readable (JRef 23) \<and> readable (JRef 24)"
    by (simp add: readable_def)
  then have rds: "\<forall>r \<in> set ?rs. readable r"
    by simp
  have len: "length ?h = 26"
    by (simp add: records_world_def length_mockData_heap)
  have z: "field_values ?h ?rs ''zip_code'' = [JStr ''A'', JStr ''A'', JStr ''B'']"
    by (simp add: field_values_def records_world_def get_prop_def cell_at_def nth_append
          length_mockData_heap)
  have b: "field_values ?h ?rs ''blockgroup'' = [JUndefined, JUndefined, JUndefined]"
    by (simp add: field_values_def records_world_def get_prop_def cell_at_def nth_append
          length_mockData_heap)
  have ci: "field_values ?h ?rs ''city'' = [JStr ''X'', JStr ''Y'', JStr ''X'']"
    by (simp add: field_values_def records_world_def get_prop_def cell_at_def nth_append
          length_mockData_heap)
  have n: "distinct_count ?h ?rs ''zip_code'' = 2" "distinct_count ?h ?rs ''blockgroup'' = 0"
    "distinct_count ?h ?rs ''city'' = 2"
    by (simp_all add: distinct_count_def z b ci card_insert_if)
  from getStats_derived [OF f okr js c rds, of False] f c rd show ?thesis
    by (simp add: n len served_def)
qed

text \<open>
  C6: when the territory file is answered with a non-2xx status, when its body does not
  parse, and when the fetch itself is rejected, \<^verbatim>\<open>getTerritoryMetrics\<close> returns
  \<^verbatim>\<open>data: null\<close> and the error it caught; no fixture is substituted.
\<close>

theorem getTerritoryMetrics_failure:
  "(\<forall>response. fetch ev territory_url = FetchResolved response \<and> \<not> ok response \<longrightarrow>
      getTerritoryMetrics useMock ev w =
        Some (\<lparr> data = JNull,
                 error = Some (Error (''Failed to load territory metrics: ''
                                        @ string_of_nat (fetch_status response))) \<rparr>,
              w \<lparr> net_log := net_log w @ [Fetch territory_url] \<rparr>))
   \<and> (\<forall>response e. fetch ev territory_url = FetchResolved response \<and> ok response
                      \<and> json response = Inl e \<longrightarrow>
      getTerritoryMetrics useMock ev w =
        Some (\<lparr> data = JNull, error = Some e \<rparr>,
              w \<lparr> net_log := net_log w @ [Fetch territory_url] \<rparr>))
   \<and> (\<forall>e. fetch ev territory_url = FetchRejected e \<longrightarrow>
      getTerritoryMetrics useMock ev w =
        Some (\<lparr> data = JNull, error = Some e \<rparr>,
              w \<lparr> net_log := net_log w @ [Fetch territory_url] \<rparr>))"
  by (simp add: getTerritoryMetrics_def getTerritoryMetrics_try_def)

theorem getTerritoryMetrics_failure_witness:
  "fetch failing_env territory_url
     = FetchResolved \<lparr> ok = False, fetch_status = 404,
                       json = Inl (SyntaxError ''Unexpected token < in JSON at position 0'') \<rparr>
   \<and> getTerritoryMetrics False failing_env initial_world =
       Some (\<lparr> data = JNull, error = Some (Error ''Failed to load territory metrics: 404'') \<rparr>,
             initial_world \<lparr> net_log := net_log initial_world @ [Fetch territory_url] \<rparr>)
   \<and> fetch garbled_env territory_url
     = FetchResolved \<lparr> ok = True, fetch_status = 200,
                       json = Inl (SyntaxError ''Unexpected token < in JSON at position 0'') \<rparr>
   \<and> getTerritoryMetrics False garbled_env initial_world =
       Some (\<lparr> data = JNull,
                error = Some (SyntaxError ''Unexpected token < in JSON at position 0'') \<rparr>,
             initial_world \<lparr> net_log := net_log initial_world @ [Fetch territory_url] \<rparr>)
   \<and> fetch offline_env territory_url = FetchRejected (TypeError ''Failed to fetch'')
   \<and> getTerritoryMetrics False offline_env initial_world =
       Some (\<lparr> data = JNull, error = Some (TypeError ''Failed to fetch'') \<rparr>,
             initial_world \<lparr> net_log := net_log initial_world @ [Fetch territory_url] \<rparr>)"
proof -
  have a: "fetch failing_env territory_url
             = FetchResolved \<lparr> ok = False, fetch_status = 404,
                   json = Inl (SyntaxError ''Unexpected token < in JSON at position 0'') \<rparr>"
    by (simp add: failing_env_def missing_fetch_def)
  have b: "fetch garbled_env territory_url
             = FetchResolved \<lparr> ok = True, fetch_status = 200,
                   json = Inl (SyntaxError ''Unexpected token < in JSON at position 0'') \<rparr>"
    by (simp add: garbled_env_def garbled_fetch_def)
  have c: "fetch offline_env territory_url = FetchRejected (TypeError ''Failed to fetch'')"
    by (simp add: offline_env_def offline_fetch_def)
  have s: "string_of_nat 404 = ''404''"
    by code_simp
  from getTerritoryMetrics_failure [of failing_env False initial_world]
       getTerritoryMetrics_failure [of garbled_env False initial_world]
       getTerritoryMetrics_failure [of offline_env False initial_world]
  show ?thesis
    by (simp add: a b c s)
qed

text \<open>
  C7: with mock mode enabled, each list method and the direct statistics method returns
  its fixture with \<^verbatim>\<open>error: null\<close> and leaves the world as it was: nothing is added to the
  log of network calls.
\<close>

theorem mock_short_circuit:
  "getTables True ev w = (\<lparr> data = mockData_tables, error = None \<rparr>, w)
   \<and> getExports True ev w = (\<lparr> data = mockData_exports, error = None \<rparr>, w)
   \<and> getNotebooks True ev w = (\<lparr> data = mockData_notebooks, error = None \<rparr>, w)
   \<and> getScripts True ev w = (\<lparr> data = mockData_scripts, error = None \<rparr>, w)
   \<and> getStats_direct True ev w = (\<lparr> data = mockData_stats, error = None \<rparr>, w)"
  by (simp add: getTables_def getExports_def getNotebooks_def getScripts_def getStats_direct_def
        mockApi_getTables_def mockApi_getExports_def mockApi_getNotebooks_def mockApi_getScripts_def
        mockApi_getStats_def)

text \<open>
  C8: in one hook instance, start call A, start call B before A resolves, resolve B and
  then A: the final state holds B's result and is not loading; A's late result changes
  nothing. In general, after any events, once the call started last has resolved, the
  late resolutions of calls started before it, in any number and order, leave its result
  in place: the result of a call whose captured generation is older than the current one
  is discarded, and every start captures a generation newer than all before.
\<close>

theorem stale_response_suppressed:
  fixes s0 :: "'e fetch_state"
  shows
  "(let (gA, s1) = start_call s0;
        (gB, s2) = start_call s1;
        s3 = resolve_call gB rB s2;
        s4 = resolve_call gA rA s3
    in st_data s4 = data rB \<and> st_error s4 = error rB \<and> \<not> loading s4 \<and> s4 = s3)
   \<and> (\<forall>pre post r.
         list_all (late (generation (run s0 pre))) post \<longrightarrow>
         (let s = run s0 (pre @ Resolve (generation (run s0 pre)) r # post)
          in st_data s = data r \<and> st_error s = error r \<and> \<not> loading s))
   \<and> (\<forall>g r (s :: 'e fetch_state). g < generation s \<longrightarrow> resolve_call g r s = s)
   \<and> (\<forall>s :: 'e fetch_state.
         generation s < fst (start_call s) \<and> generation (snd (start_call s)) = fst (start_call s))
   \<and> (\<forall>g r (s :: 'e fetch_state). generation (resolve_call g r s) = generation s)"
proof -
  have scenario:
    "(let (gA, s1) = start_call s0;
          (gB, s2) = start_call s1;
          s3 = resolve_call gB rB s2;
          s4 = resolve_call gA rA s3
      in st_data s4 = data rB \<and> st_error s4 = error rB \<and> \<not> loading s4 \<and> s4 = s3)"
    by (simp add: start_call_def resolve_call_def)
  have general:
    "(let s = run s0 (pre @ Resolve (generation (run s0 pre)) r # post)
      in st_data s = data r \<and> st_error s = error r \<and> \<not> loading s)"
    if post: "list_all (late (generation (run s0 pre))) post" for pre post r
  proof -
    let ?g = "generation (run s0 pre)"
    let ?s = "resolve_call ?g r (run s0 pre)"
    have gen: "generation ?s = ?g"
      by (simp add: resolve_call_def)
    have "run s0 (pre @ Resolve ?g r # post) = run ?s post"
      by (simp add: run_def)
    also have "\<dots> = ?s"
      using post by (intro run_late) (simp add: gen)
    finally show ?thesis
      by (simp add: resolve_call_def)
  qed
  have discard: "resolve_call g r s = s" if "g < generation s" for g r and s :: "'e fetch_state"
    using that by (simp add: resolve_call_def)
  have starts: "generation s < fst (start_call s) \<and> generation (snd (start_call s)) = fst (start_call s)"
    for s :: "'e fetch_state"
    by (simp add: start_call_def)
  have keeps: "generation (resolve_call g r s) = generation s" for g r and s :: "'e fetch_state"
    by (simp add: resolve_call_def)
  show ?thesis
    by (intro conjI allI impI)
       (simp_all only: scenario general discard starts [THEN conjunct1] starts [THEN conjunct2] keeps)
qed

theorem stale_response_suppressed_witness:
  "fst (start_call idle_state) = 1
   \<and> fst (start_call (snd (start_call idle_state))) = 2
   \<and> generation (run idle_state [Start, Start]) = 2
   \<and> list_all (late 2) [Resolve 1 result_A]
   \<and> run idle_state [Start, Start, Resolve 2 result_B, Resolve 1 result_A]
       = \<lparr> st_data = JRef 21, loading = False, st_error = None, generation = 2 \<rparr>
   \<and> st_data (run idle_state [Start, Start, Resolve 2 result_B, Resolve 1 result_A]) = data result_B
   \<and> st_error (run idle_state [Start, Start, Resolve 2 result_B, Resolve 1 result_A]) = error result_B"
proof -
  have g: "generation (run idle_state [Start, Start]) = 2"
    by (simp add: run_def start_call_def idle_state_def)
  have l: "list_all (late (generation (run idle_state [Start, Start]))) [Resolve 1 result_A]"
    by (simp add: g)
  from stale_response_suppressed [of idle_state result_B result_A]
  have "\<forall>pre post r.
         list_all (late (generation (run idle_state pre))) post \<longrightarrow>
         (let s = run idle_state (pre @ Resolve (generation (run idle_state pre)) r # post)
          in st_data s = data r \<and> st_error s = error r \<and> \<not> loading s)"
    by blast
  with l have
    "let s = run idle_state ([Start, Start] @ Resolve (generation (run idle_state [Start, Start])) result_B
                              # [Resolve 1 result_A])
     in st_data s = data result_B \<and> st_error s = error result_B \<and> \<not> loading s"
    by blast
  then have r: "st_data (run idle_state [Start, Start, Resolve 2 result_B, Resolve 1 result_A]) = data result_B
      \<and> st_error (run idle_state [Start, Start, Resolve 2 result_B, Resolve 1 result_A]) = error result_B"
    by (simp add: g Let_def)
  have e: "run idle_state [Start, Start, Resolve 2 result_B, Resolve 1 result_A]
       = \<lparr> st_data = JRef 21, loading = False, st_error = None, generation = 2 \<rparr>"
    by (simp add: run_def start_call_def resolve_call_def idle_state_def result_B_def)
  from g r e show ?thesis
    by (simp add: start_call_def idle_state_def)
qed

text \<open>
  C9: the derived \<^verbatim>\<open>getStats\<close> returns \<^verbatim>\<open>error: null\<close> on every execution; when the fetch
  is rejected, answered with a non-2xx status or its body does not parse, the data is the
  fixture statistics. The fetch of the bulk export is always attempted, and the result
  does not depend on the mock-mode flag.
\<close>

theorem getStats_never_errors:
  "error (fst (getStats useMock ev w)) = None
   \<and> net_log (snd (getStats useMock ev w)) = net_log w @ [Fetch stats_url]
   \<and> getStats True ev w = getStats False ev w
   \<and> (\<forall>e. fetch ev stats_url = FetchRejected e \<longrightarrow>
        getStats useMock ev w =
          (\<lparr> data = mockData_stats, error = None \<rparr>, w \<lparr> net_log := net_log w @ [Fetch stats_url] \<rparr>))
   \<and> (\<forall>response. fetch ev stats_url = FetchResolved response \<and> \<not> ok response \<longrightarrow>
        getStats useMock ev w =
          (\<lparr> data = mockData_stats, error = None \<rparr>, w \<lparr> net_log := net_log w @ [Fetch stats_url] \<rparr>))
   \<and> (\<forall>response e. fetch ev stats_url = FetchResolved response \<and> ok response
                      \<and> json response = Inl e \<longrightarrow>
        getStats useMock ev w =
          (\<lparr> data = mockData_stats, error = None \<rparr>, w \<lparr> net_log := net_log w @ [Fetch stats_url] \<rparr>))"
proof -
  have "error (fst (getStats useMock ev w)) = None"
    by (simp add: getStats_def Let_def split: sum.splits prod.splits)
  moreover have "net_log (snd (getStats useMock ev w)) = net_log w @ [Fetch stats_url]"
    by (simp add: getStats_def Let_def split: sum.splits prod.splits)
  moreover have "getStats True ev w = getStats False ev w"
    by (simp add: getStats_def)
  ultimately show ?thesis
    by (simp add: getStats_def getStats_try_def mockApi_getStats_def)
qed

theorem getStats_never_errors_witness:
  "fetch offline_env stats_url = FetchRejected (TypeError ''Failed to fetch'')
   \<and> getStats True offline_env initial_world =
       (\<lparr> data = mockData_stats, error = None \<rparr>,
        initial_world \<lparr> net_log := net_log initial_world @ [Fetch stats_url] \<rparr>)
   \<and> \<not> ok \<lparr> ok = False, fetch_status = 404,
              json = Inl (SyntaxError ''Unexpected token < in JSON at position 0'') \<rparr>
   \<and> getStats True failing_env initial_world =
       (\<lparr> data = mockData_stats, error = None \<rparr>,
        initial_world \<lparr> net_log := net_log initial_world @ [Fetch stats_url] \<rparr>)
   \<and> getStats True garbled_env initial_world =
       (\<lparr> data = mockData_stats, error = None \<rparr>,
        initial_world \<lparr> net_log := net_log initial_world @ [Fetch stats_url] \<rparr>)"
proof -
  have a: "fetch failing_env stats_url
             = FetchResolved \<lparr> ok = False, fetch_status = 404,
                   json = Inl (SyntaxError ''Unexpected token < in JSON at position 0'') \<rparr>"
    by (simp add: failing_env_def missing_fetch_def)
  have b: "fetch garbled_env stats_url
             = FetchResolved \<lparr> ok = True, fetch_status = 200,
                   json = Inl (SyntaxError ''Unexpected token < in JSON at position 0'') \<rparr>"
    by (simp add: garbled_env_def garbled_fetch_def)
  have c: "fetch offline_env stats_url = FetchRejected (TypeError ''Failed to fetch'')"
    by (simp add: offline_env_def offline_fetch_def)
  have r1: "getStats True failing_env initial_world =
       (\<lparr> data = mockData_stats, error = None \<rparr>,
        initial_world \<lparr> net_log := net_log initial_world @ [Fetch stats_url] \<rparr>)"
    using getStats_never_errors [of True failing_env initial_world] a by force
  have r2: "getStats True garbled_env initial_world =
       (\<lparr> data = mockData_stats, error = None \<rparr>,
        initial_world \<lparr> net_log := net_log initial_world @ [Fetch stats_url] \<rparr>)"
    using getStats_never_errors [of True garbled_env initial_world] b by force
  have r3: "getStats True offline_env initial_world =
       (\<lparr> data = mockData_stats, error = None \<rparr>,
        initial_world \<lparr> net_log := net_log initial_world @ [Fetch stats_url] \<rparr>)"
    using getStats_never_errors [of True offline_env initial_world] c by blast
  show ?thesis
    by (simp add: r1 r2 r3 c)
qed

text \<open>
  C10: when the territory file is served and the \<^verbatim>\<open>territories\<close> field of its payload is
  read as anything but an array (missing, \<^verbatim>\<open>null\<close>, any other value),
  \<^verbatim>\<open>getTerritoryMetrics\<close> returns success with an empty territories array, \<^verbatim>\<open>groupBy\<close> being
  \<^verbatim>\<open>group_by\<close> or \<^verbatim>\<open>'zip_code'\<close> when that is missing or falsy, \<^verbatim>\<open>summary\<close> being \<^verbatim>\<open>summary\<close> or
  \<^verbatim>\<open>null\<close> when that is missing or falsy. Whatever the call returns, every cell the heap
  held before the call is unchanged after it, the payload's own territories array among
  them: what is sorted is a new array.
\<close>

theorem getTerritoryMetrics_not_array:
  "(\<forall>response payload tv.
      fetch ev territory_url = FetchResolved response \<and> ok response
      \<and> json response = Inr payload
      \<and> get_prop (heap w) payload ''territories'' = Inr tv \<and> \<not> isArray (heap w) tv \<longrightarrow>
      (\<exists>g s. get_prop (heap w) payload ''group_by'' = Inr g
            \<and> get_prop (heap w) payload ''summary'' = Inr s
            \<and> getTerritoryMetrics useMock ev w =
                Some (\<lparr> data = JRef (Suc (length (heap w))), error = None \<rparr>,
                      w \<lparr> net_log := net_log w @ [Fetch territory_url],
                          heap := heap w @
                            [ArrCell [],
                             ObjCell [ (''groupBy'', if truthy g then g else JStr ''zip_code''),
                                       (''summary'', if truthy s then s else JNull),
                                       (''territories'', JRef (length (heap w))) ]] \<rparr>)))
   \<and> (\<forall>r w'. getTerritoryMetrics useMock ev w = Some (r, w') \<longrightarrow>
         take (length (heap w)) (heap w') = heap w)"
proof -
  have "\<exists>g s. get_prop (heap w) payload ''group_by'' = Inr g
            \<and> get_prop (heap w) payload ''summary'' = Inr s
            \<and> getTerritoryMetrics useMock ev w =
                Some (\<lparr> data = JRef (Suc (length (heap w))), error = None \<rparr>,
                      w \<lparr> net_log := net_log w @ [Fetch territory_url],
                          heap := heap w @
                            [ArrCell [],
                             ObjCell [ (''groupBy'', if truthy g then g else JStr ''zip_code''),
                                       (''summary'', if truthy s then s else JNull),
                                       (''territories'', JRef (length (heap w))) ]] \<rparr>)"
    if f: "fetch ev territory_url = FetchResolved response" and o: "ok response"
      and j: "json response = Inr payload"
      and t: "get_prop (heap w) payload ''territories'' = Inr tv"
      and n: "\<not> isArray (heap w) tv"
    for response payload tv
  proof -
    let ?h = "heap w"
    obtain g where g: "get_prop ?h payload ''group_by'' = Inr g"
      using get_prop_total [OF t] by blast
    obtain s where s: "get_prop ?h payload ''summary'' = Inr s"
      using get_prop_total [OF t] by blast
    have xs: "[] = (if isArray ?h tv then elems ?h tv else [])"
      using n by simp
    have srt: "array_sort (compare_count (?h @ [ArrCell []])) [] = Normal []"
      by (simp add: array_sort_def)
    have "getTerritoryMetrics_try ev ?h =
            Normal (JRef (Suc (length ?h)),
                    ?h @ [ArrCell [],
                          ObjCell [ (''groupBy'', js_or g (JStr ''zip_code'')),
                                    (''summary'', js_or s JNull),
                                    (''territories'', JRef (length ?h)) ]])"
      using f o j t xs srt g s by (rule getTerritoryMetrics_try_Normal)
    then have "getTerritoryMetrics useMock ev w =
                Some (\<lparr> data = JRef (Suc (length ?h)), error = None \<rparr>,
                      w \<lparr> net_log := net_log w @ [Fetch territory_url],
                          heap := ?h @
                            [ArrCell [],
                             ObjCell [ (''groupBy'', if truthy g then g else JStr ''zip_code''),
                                       (''summary'', if truthy s then s else JNull),
                                       (''territories'', JRef (length ?h)) ]] \<rparr>)"
      by (simp add: getTerritoryMetrics_def js_or_def)
    with g s show ?thesis by blast
  qed
  moreover have "take (length (heap w)) (heap w') = heap w"
    if "getTerritoryMetrics useMock ev w = Some (r, w')" for r w'
    using that by (rule getTerritoryMetrics_prefix)
  ultimately show ?thesis by blast
qed

theorem getTerritoryMetrics_not_array_witness:
  "fetch malformed_env territory_url = served (JRef 22)
   \<and> get_prop (heap malformed_world) (JRef 22) ''territories'' = Inr (JStr ''none'')
   \<and> \<not> isArray (heap malformed_world) (JStr ''none'')
   \<and> get_prop (heap malformed_world) (JRef 22) ''group_by'' = Inr (JStr [])
   \<and> get_prop (heap malformed_world) (JRef 22) ''summary'' = Inr JUndefined
   \<and> getTerritoryMetrics False malformed_env malformed_world =
       Some (\<lparr> data = JRef 24, error = None \<rparr>,
             malformed_world
               \<lparr> net_log := net_log malformed_world @ [Fetch territory_url],
                 heap := heap malformed_world @
                   [ArrCell [],
                    ObjCell [ (''groupBy'', JStr ''zip_code''), (''summary'', JNull),
                              (''territories'', JRef 23) ]] \<rparr>)
   \<and> take (length (heap territory_world))
        (heap (snd (the (getTerritoryMetrics False territory_env territory_world))))
       = heap territory_world
   \<and> cell_at (heap (snd (the (getTerritoryMetrics False territory_env territory_world)))) 26
       = Some (ArrCell [JRef 22, JRef 23, JRef 24, JRef 25])
   \<and> cell_at (heap (snd (the (getTerritoryMetrics False territory_env territory_world)))) 29
       = Some (ArrCell [JRef 24, JRef 22, JRef 23, JRef 25])"
proof -
  let ?h = "heap malformed_world"
  have f: "fetch malformed_env territory_url
             = FetchResolved \<lparr> ok = True, fetch_status = 200, json = Inr (JRef 22) \<rparr>"
    by (simp add: malformed_env_def malformed_fetch_def served_def)
  have len: "length ?h = 23"
    by (simp add: malformed_world_def length_mockData_heap)
  have t: "get_prop ?h (JRef 22) ''territories'' = Inr (JStr ''none'')"
    by (simp add: malformed_world_def get_prop_def cell_at_def nth_append length_mockData_heap)
  have g: "get_prop ?h (JRef 22) ''group_by'' = Inr (JStr [])"
    by (simp add: malformed_world_def get_prop_def cell_at_def nth_append length_mockData_heap)
  have s: "get_prop ?h (JRef 22) ''summary'' = Inr JUndefined"
    by (simp add: malformed_world_def get_prop_def cell_at_def nth_append length_mockData_heap)
  have n: "\<not> isArray ?h (JStr ''none'')"
    by (simp add: isArray_def)
  note inst = getTerritoryMetrics_not_array [of malformed_env malformed_world False]
  from inst f t n have
    "\<exists>g s. get_prop ?h (JRef 22) ''group_by'' = Inr g
          \<and> get_prop ?h (JRef 22) ''summary'' = Inr s
          \<and> getTerritoryMetrics False malformed_env malformed_world =
              Some (\<lparr> data = JRef (Suc (length ?h)), error = None \<rparr>,
                    malformed_world
                      \<lparr> net_log := net_log malformed_world @ [Fetch territory_url],
                        heap := ?h @
                          [ArrCell [],
                           ObjCell [ (''groupBy'', if truthy g then g else JStr ''zip_code''),
                                     (''summary'', if truthy s then s else JNull),
                                     (''territories'', JRef (length ?h)) ]] \<rparr>)"
    by simp
  then have res: "getTerritoryMetrics False malformed_env malformed_world =
       Some (\<lparr> data = JRef 24, error = None \<rparr>,
             malformed_world
               \<lparr> net_log := net_log malformed_world @ [Fetch territory_url],
                 heap := ?h @
                   [ArrCell [],
                    ObjCell [ (''groupBy'', JStr ''zip_code''), (''summary'', JNull),
                              (''territories'', JRef 23) ]] \<rparr>)"
    by (auto simp: g s len)
  have lt: "length (heap territory_world) = 29"
    by (simp add: territory_world_def length_mockData_heap)
  have c26: "heap territory_world ! 26 = ArrCell [JRef 22, JRef 23, JRef 24, JRef 25]"
    by (simp add: territory_world_def nth_append length_mockData_heap)
  have pre: "take (length (heap territory_world))
        (heap (snd (the (getTerritoryMetrics False territory_env territory_world))))
       = heap territory_world"
    by (simp add: territory_world_result)
  have "cell_at (heap (snd (the (getTerritoryMetrics False territory_env territory_world)))) 26
       = Some (ArrCell [JRef 22, JRef 23, JRef 24, JRef 25])"
    by (simp add: territory_world_result cell_at_def lt nth_append c26)
  moreover have "cell_at (heap (snd (the (getTerritoryMetrics False territory_env territory_world)))) 29
       = Some (ArrCell [JRef 24, JRef 22, JRef 23, JRef 25])"
    by (simp add: territory_world_result cell_at_def lt nth_append)
  ultimately show ?thesis
    using res pre f t n g s by (simp add: served_def)
qed

end
